theory Spec2Isabelle
  imports Main "HOL-Library.Word"
begin

section \<open>Values shared by the whole development\<close>

text \<open>
  Byte slices are lists of 8-bit words, Go strings are HOL strings, and Go's \<open>int\<close>
  (the retry budget of the poller) is a 64-bit word, so that \<open>retryCount++\<close> wraps
  as it does on the machine.
\<close>

type_synonym bytes = "8 word list"

text \<open>
  Go \<open>error\<close> values.  Only what the code inspects is kept: whether the value
  implements \<open>awserr.Error\<close> (then it has a code), and whether \<open>os.IsNotExist\<close>
  holds of it.  \<open>MultiErr\<close> is the aggregate of \<open>vfs.MultiErr\<close>.
\<close>

datatype error =
    ErrorString string
  | AwsError string string
  | OsError bool string
  | MultiErr "error list"

text \<open>The type assertion \<open>err.(awserr.Error).Code()\<close>: \<open>None\<close> is the failed assertion.\<close>

fun awserrCode :: "error \<Rightarrow> string option" where
  "awserrCode (AwsError code msg) = Some code"
| "awserrCode (ErrorString msg) = None"
| "awserrCode (OsError ne msg) = None"
| "awserrCode (MultiErr es) = None"

fun IsNotExist :: "error \<Rightarrow> bool" where
  "IsNotExist (OsError ne msg) = ne"
| "IsNotExist (ErrorString msg) = False"
| "IsNotExist (AwsError code msg) = False"
| "IsNotExist (MultiErr es) = False"

definition ErrCodeNoSuchKey :: string where
  "ErrCodeNoSuchKey = ''NoSuchKey''"

text \<open>A call either returns a value or panics.\<close>

datatype 'a outcome = Return 'a | Panic

section \<open>The File and its environment\<close>

text \<open>
  The local mirror is the \<open>*os.File\<close> held in \<open>tempFile\<close>: its name, its content, its
  cursor, and whether the handle has been closed.
\<close>

record temp =
  tname :: string
  tdata :: bytes
  tpos :: nat
  tclosed :: bool

text \<open>
  \<open>fileSystem\<close> is the (non-nil) pointer to the owning file system, whose \<open>Client\<close>
  is the environment below.  \<open>tempFile\<close> and \<open>writeBuffer\<close> are the two nilable
  pointers of the struct.
\<close>

record File =
  fileSystem :: nat
  bucket :: string
  key :: string
  tempFile :: "temp option"
  writeBuffer :: "bytes option"

record HeadObjectOutput =
  LastModified :: int
  ContentLength :: int

text \<open>Every call that leaves the process is recorded, in order, with its arguments.\<close>

datatype event =
    EvHeadObject string string
  | EvGetObject string string
  | EvUpload string string string bytes
  | EvCopyObject string string string
  | EvDeleteObject string string
  | EvTempFile string
  | EvCopyToTemp string
  | EvSeekTemp string
  | EvRemove string
  | EvCloseTemp string
  | EvSleep

type_synonym trace = "event list"

text \<open>
  The environment: the S3 client behind \<open>fileSystem.Client\<close>, the uploader, the local
  operating system and the helpers of the \<open>vfs\<close> package and of Go's \<open>path\<close>
  package that the file calls.  Each answer is a function of the calls made so far, the
  call being answered included, so any deterministic store (consistent or not) and any
  failure pattern is an environment.  \<open>UploadRead\<close> is the number of bytes the
  uploader has consumed from the \<open>bytes.Buffer\<close> it was given when it returns.
\<close>

record env =
  HeadObject :: "trace \<Rightarrow> error + HeadObjectOutput"
  GetObject :: "trace \<Rightarrow> error + bytes"
  Upload :: "trace \<Rightarrow> error option"
  UploadRead :: "trace \<Rightarrow> nat"
  CopyObject :: "trace \<Rightarrow> error option"
  DeleteObject :: "trace \<Rightarrow> error option"
  TempFile :: "trace \<Rightarrow> error + string"
  CopyToTemp :: "trace \<Rightarrow> error option"
  SeekTemp :: "trace \<Rightarrow> error option"
  Remove :: "trace \<Rightarrow> error option"
  CloseTemp :: "trace \<Rightarrow> error option"
  GetFileURI :: "File \<Rightarrow> string"
  pathJoin :: "string \<Rightarrow> string \<Rightarrow> string"

section \<open>Metadata queries\<close>

definition getHeadObject :: "env \<Rightarrow> File \<Rightarrow> trace \<Rightarrow> (error + HeadObjectOutput) \<times> trace" where
  "getHeadObject env f tr =
     (let tr' = tr @ [EvHeadObject (bucket f) (key f)] in (HeadObject env tr', tr'))"

definition Exists :: "env \<Rightarrow> File \<Rightarrow> trace \<Rightarrow> (bool \<times> error option) outcome \<times> trace" where
  "Exists env f tr =
     (case getHeadObject env f tr of
        (Inr head, tr') \<Rightarrow> (Return (True, None), tr')
      | (Inl err, tr') \<Rightarrow>
          (case awserrCode err of
             None \<Rightarrow> (Panic, tr')
           | Some code \<Rightarrow>
               if code = ErrCodeNoSuchKey \<or> code = ''NotFound''
               then (Return (False, None), tr')
               else (Return (False, Some err), tr')))"

text \<open>
  \<open>LastModified\<close> (lines 49 to 55), under the name \<open>File_LastModified\<close> since the
  field of the query's output bears the method's name: the error of the metadata query
  is returned as it is.
\<close>

definition File_LastModified :: "env \<Rightarrow> File \<Rightarrow> trace \<Rightarrow> (error + int) \<times> trace" where
  "File_LastModified env f tr =
     (case getHeadObject env f tr of
        (Inl err, tr') \<Rightarrow> (Inl err, tr')
      | (Inr head, tr') \<Rightarrow> (Inr (LastModified head), tr'))"

section \<open>The consistency poller\<close>

fun show_nat :: "nat \<Rightarrow> string" where
  "show_nat n =
     (if n < 10 then [''0123456789'' ! n]
      else show_nat (n div 10) @ [''0123456789'' ! (n mod 10)])"

declare show_nat.simps [simp del]

definition show_int :: "int \<Rightarrow> string" where
  "show_int i = (if i < 0 then ''-'' @ show_nat (nat (- i)) else show_nat (nat i))"

text \<open>The argument of the poller is a \<open>vfs.File\<close>: an S3 file or the in-memory mock.\<close>

datatype vfs_File = S3File File | MocksReadWriteFile

text \<open>The body of the \<open>for\<close> loop, from the state \<open>retryCount\<close>.\<close>

function waitLoop :: "env \<Rightarrow> File \<Rightarrow> 64 word \<Rightarrow> 64 word \<Rightarrow> trace \<Rightarrow> error option outcome \<times> trace" where
  "waitLoop env f retries retryCount tr =
     (if retryCount = retries
      then (Return (Some (ErrorString
              (''Failed to find file '' @ GetFileURI env f @ '' after '' @ show_int (sint retries)))), tr)
      else
        (case Exists env f tr of
           (Panic, tr') \<Rightarrow> (Panic, tr')
         | (Return (found, Some err), tr') \<Rightarrow>
             (Return (Some (ErrorString ''unable to check for file on S3'')), tr')
         | (Return (found, None), tr') \<Rightarrow>
             if found then (Return None, tr')
             else waitLoop env f retries (retryCount + 1) (tr' @ [EvSleep])))"
  by pat_completeness auto
termination
proof (relation "measure (\<lambda>(env, f, retries, retryCount, tr). unat (retries - retryCount))")
  show "wf (measure (\<lambda>(env, f, retries, retryCount, tr). unat (retries - retryCount)))"
    by simp
next
  fix env :: env and f :: "File" and retries retryCount :: "64 word" and tr :: trace
    and x :: "(bool \<times> error option) outcome" and tr' :: trace
  assume neq: "retryCount \<noteq> retries"
  have step: "retries - (retryCount + 1) = (retries - retryCount) - 1" by simp
  have nz: "retries - retryCount \<noteq> 0" using neq by simp
  have "unat ((retries - retryCount) - 1) < unat (retries - retryCount)"
    using nz by (simp add: unat_minus_one unat_gt_0)
  then have "unat (retries - (retryCount + 1)) < unat (retries - retryCount)"
    unfolding step .
  then show "((env, f, retries, retryCount + 1, tr' @ [EvSleep]), (env, f, retries, retryCount, tr))
      \<in> measure (\<lambda>(env, f, retries, retryCount, tr). unat (retries - retryCount))"
    by simp
qed

declare waitLoop.simps [simp del]

definition waitUntilFileExists :: "env \<Rightarrow> vfs_File \<Rightarrow> 64 word \<Rightarrow> trace \<Rightarrow> error option outcome \<times> trace" where
  "waitUntilFileExists env vf retries tr =
     (case vf of
        MocksReadWriteFile \<Rightarrow> (Return None, tr)
      | S3File f \<Rightarrow>
          if retries = - 1 then (Return None, tr)
          else waitLoop env f retries 0 tr)"

section \<open>Construction and names\<close>

text \<open>
  Modelled from the spec: \<open>vfs.CleanPrefix\<close> is a helper of the \<open>vfs\<close> package, defined
  outside \<open>file.go\<close>; the spec says of it that the key is "normalized to
  strip any leading path separators".
\<close>

definition CleanPrefix :: "string \<Rightarrow> string" where
  "CleanPrefix k = dropWhile (\<lambda>c. c = CHR ''/'') k"

text \<open>The first argument is the \<open>*FileSystem\<close> pointer, \<open>None\<close> for \<open>nil\<close>.\<close>

definition newFile :: "nat option \<Rightarrow> string \<Rightarrow> string \<Rightarrow> error + File" where
  "newFile fs bkt k =
     (case fs of
        None \<Rightarrow> Inl (ErrorString ''non-nil s3.fileSystem pointer is required'')
      | Some fsp \<Rightarrow>
          if bkt = [] \<or> k = []
          then Inl (ErrorString ''non-empty strings for bucket and key are required'')
          else Inr \<lparr>fileSystem = fsp, bucket = bkt, key = CleanPrefix k,
                    tempFile = None, writeBuffer = None\<rparr>)"

text \<open>Go's \<open>path.Base\<close>.\<close>

definition path_Base :: "string \<Rightarrow> string" where
  "path_Base p =
     (if p = [] then ''.''
      else
        (let stripped = rev (dropWhile (\<lambda>c. c = CHR ''/'') (rev p));
             last_elem = rev (takeWhile (\<lambda>c. c \<noteq> CHR ''/'') (rev stripped))
         in if last_elem = [] then ''/'' else last_elem))"

definition Name :: "File \<Rightarrow> string" where
  "Name f = path_Base (key f)"

definition Path :: "File \<Rightarrow> string" where
  "Path f = ''/'' @ key f"

section \<open>The read path\<close>

definition getObject :: "env \<Rightarrow> File \<Rightarrow> trace \<Rightarrow> (error + bytes) \<times> trace" where
  "getObject env f tr =
     (let tr' = tr @ [EvGetObject (bucket f) (key f)] in (GetObject env tr', tr'))"

text \<open>
  \<open>ioutil.TempFile\<close>, then \<open>getObject\<close>, then \<open>io.Copy\<close> of the body into the new
  file, then \<open>Seek(0, 0)\<close>.  Any failure returns the error and no handle.
\<close>

definition copyToLocalTempReader :: "env \<Rightarrow> File \<Rightarrow> trace \<Rightarrow> (error + temp) \<times> trace" where
  "copyToLocalTempReader env f tr =
     (let tr1 = tr @ [EvTempFile (Name f)] in
      case TempFile env tr1 of
        Inl err \<Rightarrow> (Inl err, tr1)
      | Inr nm \<Rightarrow>
          (case getObject env f tr1 of
             (Inl err, tr2) \<Rightarrow> (Inl err, tr2)
           | (Inr body, tr2) \<Rightarrow>
               (let tr3 = tr2 @ [EvCopyToTemp nm] in
                case CopyToTemp env tr3 of
                  Some err \<Rightarrow> (Inl err, tr3)
                | None \<Rightarrow>
                    (let tr4 = tr3 @ [EvSeekTemp nm] in
                     case SeekTemp env tr4 of
                       Some err \<Rightarrow> (Inl err, tr4)
                     | None \<Rightarrow>
                         (Inr \<lparr>tname = nm, tdata = body, tpos = 0, tclosed = False\<rparr>, tr4)))))"

definition checkTempFile :: "env \<Rightarrow> File \<Rightarrow> trace \<Rightarrow> error option \<times> File \<times> trace" where
  "checkTempFile env f tr =
     (case tempFile f of
        Some t \<Rightarrow> (None, f, tr)
      | None \<Rightarrow>
          (case copyToLocalTempReader env f tr of
             (Inl err, tr') \<Rightarrow> (Some err, f, tr')
           | (Inr localTempFile, tr') \<Rightarrow> (None, f\<lparr>tempFile := Some localTempFile\<rparr>, tr')))"

text \<open>
  \<open>os.File.Read\<close> and \<open>os.File.Seek\<close> on the mirror, as a random-access byte stream:
  a read of \<open>n > 0\<close> bytes returns what is left, up to \<open>n\<close>, and \<open>io.EOF\<close> when nothing
  is left; both fail on a closed handle.
\<close>

definition EOF :: error where
  "EOF = ErrorString ''EOF''"

definition ErrClosed :: error where
  "ErrClosed = OsError False ''file already closed''"

definition ErrInvalid :: error where
  "ErrInvalid = OsError False ''invalid argument''"

definition temp_Read :: "temp \<Rightarrow> nat \<Rightarrow> (bytes \<times> error option) \<times> temp" where
  "temp_Read t n =
     (if tclosed t then (([], Some ErrClosed), t)
      else if n = 0 then (([], None), t)
      else
        (let d = take n (drop (tpos t) (tdata t)) in
         if d = [] then (([], Some EOF), t)
         else ((d, None), t\<lparr>tpos := tpos t + length d\<rparr>)))"

definition temp_Seek :: "temp \<Rightarrow> int \<Rightarrow> int \<Rightarrow> (int \<times> error option) \<times> temp" where
  "temp_Seek t offset whence =
     (if tclosed t then ((0, Some ErrClosed), t)
      else if whence \<noteq> 0 \<and> whence \<noteq> 1 \<and> whence \<noteq> 2 then ((0, Some ErrInvalid), t)
      else
        (let base = (if whence = 0 then 0
                     else if whence = 1 then int (tpos t)
                     else int (length (tdata t)));
             target = base + offset
         in if target < 0 then ((0, Some ErrInvalid), t)
            else ((target, None), t\<lparr>tpos := nat target\<rparr>)))"

text \<open>\<open>Read(p)\<close> with \<open>len(p) = n\<close>; the bytes returned are those stored into \<open>p\<close>.\<close>

definition Read :: "env \<Rightarrow> File \<Rightarrow> nat \<Rightarrow> trace \<Rightarrow> (bytes \<times> error option) \<times> File \<times> trace" where
  "Read env f n tr =
     (case checkTempFile env f tr of
        (Some err, f1, tr1) \<Rightarrow> (([], Some err), f1, tr1)
      | (None, f1, tr1) \<Rightarrow>
          (case tempFile f1 of
             None \<Rightarrow> (([], Some ErrInvalid), f1, tr1)
           | Some t \<Rightarrow>
               (let (r, t') = temp_Read t n in (r, f1\<lparr>tempFile := Some t'\<rparr>, tr1))))"

definition Seek :: "env \<Rightarrow> File \<Rightarrow> int \<Rightarrow> int \<Rightarrow> trace \<Rightarrow> (int \<times> error option) \<times> File \<times> trace" where
  "Seek env f offset whence tr =
     (case checkTempFile env f tr of
        (Some err, f1, tr1) \<Rightarrow> ((0, Some err), f1, tr1)
      | (None, f1, tr1) \<Rightarrow>
          (case tempFile f1 of
             None \<Rightarrow> ((0, Some ErrInvalid), f1, tr1)
           | Some t \<Rightarrow>
               (let (r, t') = temp_Seek t offset whence in (r, f1\<lparr>tempFile := Some t'\<rparr>, tr1))))"

section \<open>The write path\<close>

text \<open>
  The buffer is created empty when absent; \<open>bytes.Buffer.Write\<close> appends and returns
  \<open>len(data)\<close> and a nil error.  No client is involved.
\<close>

definition Write :: "File \<Rightarrow> bytes \<Rightarrow> (nat \<times> error option) \<times> File" where
  "Write f data =
     (let f1 = (case writeBuffer f of None \<Rightarrow> f\<lparr>writeBuffer := Some []\<rparr> | Some b \<Rightarrow> f) in
      case writeBuffer f1 of
        Some b \<Rightarrow> ((length data, None), f1\<lparr>writeBuffer := Some (b @ data)\<rparr>)
      | None \<Rightarrow> ((0, Some ErrInvalid), f1))"

section \<open>Close\<close>

text \<open>
  Modelled from the spec: \<open>vfs.MultiErr\<close> (\<open>NewMutliErr\<close>, \<open>Append\<close>, \<open>DeferFunc\<close>,
  \<open>OrNil\<close>) is a helper of the \<open>vfs\<close> package, defined outside \<open>file.go\<close>.
  The spec describes it as the aggregate of the failures collected during Close, absent
  when there was none: the aggregate is the list of the appended errors, in order, and
  \<open>OrNil\<close> is nil exactly when the list is empty.
\<close>

definition OrNil :: "error list \<Rightarrow> error option" where
  "OrNil errs = (if errs = [] then None else Some (MultiErr errs))"

text \<open>\<open>errs.DeferFunc(g)\<close>, given the result of calling \<open>g\<close>: its error, if any, is appended.\<close>

definition DeferFunc :: "error list \<Rightarrow> error option \<Rightarrow> error list" where
  "DeferFunc errs r = (case r of None \<Rightarrow> errs | Some err \<Rightarrow> errs @ [err])"

text \<open>
  Lines 202 to 211: with a mirror, \<open>os.Remove\<close> of its name; a failure other than
  "does not exist" is appended and Close returns at once; otherwise the reference is
  cleared.  The first component is the appended error of an early return.
\<close>

definition Close_tempFile :: "env \<Rightarrow> File \<Rightarrow> trace \<Rightarrow> error option \<times> File \<times> trace" where
  "Close_tempFile env f tr =
     (case tempFile f of
        None \<Rightarrow> (None, f, tr)
      | Some t \<Rightarrow>
          (let tr' = tr @ [EvRemove (tname t)] in
           case Remove env tr' of
             None \<Rightarrow> (None, f\<lparr>tempFile := None\<rparr>, tr')
           | Some err \<Rightarrow>
               if \<not> IsNotExist err then (Some err, f, tr')
               else (None, f\<lparr>tempFile := None\<rparr>, tr')))"

text \<open>
  Lines 213 to 221: with a write buffer, one \<open>Upload\<close> whose body is the buffer and
  whose encryption directive is \<open>AES256\<close>; a failure is appended and Close returns at
  once.  The uploader reads from the buffer, so what is left in it afterwards is what
  the uploader had not consumed.
\<close>

definition Close_writeBuffer :: "env \<Rightarrow> File \<Rightarrow> trace \<Rightarrow> error option \<times> File \<times> trace" where
  "Close_writeBuffer env f tr =
     (case writeBuffer f of
        None \<Rightarrow> (None, f, tr)
      | Some buf \<Rightarrow>
          (let tr' = tr @ [EvUpload (bucket f) (key f) ''AES256'' buf];
               f' = f\<lparr>writeBuffer := Some (drop (UploadRead env tr') buf)\<rparr>
           in case Upload env tr' of
                Some err \<Rightarrow> (Some err, f', tr')
              | None \<Rightarrow> (None, f', tr')))"

text \<open>
  The deferred functions, in the order they run.  \<open>errs.DeferFunc(f.tempFile.Close)\<close>
  is deferred only when there was a mirror on entry, closes that handle and appends its
  failure; then the first deferred function sets the result to \<open>errs.OrNil()\<close>,
  whatever the \<open>return\<close> statement had stored there.  A panic goes on after them.
\<close>

definition Close_deferred ::
  "env \<Rightarrow> temp option \<Rightarrow> bool \<Rightarrow> error list \<Rightarrow> File \<Rightarrow> trace \<Rightarrow> error option outcome \<times> File \<times> trace" where
  "Close_deferred env entry panicked errs f tr =
     (case entry of
        None \<Rightarrow> ((if panicked then Panic else Return (OrNil errs)), f, tr)
      | Some t \<Rightarrow>
          (let tr' = tr @ [EvCloseTemp (tname t)];
               errs' = DeferFunc errs (CloseTemp env tr');
               f' = f\<lparr>tempFile := map_option (\<lambda>h. h\<lparr>tclosed := True\<rparr>) (tempFile f)\<rparr>
           in ((if panicked then Panic else Return (OrNil errs')), f', tr')))"

definition Close :: "env \<Rightarrow> File \<Rightarrow> trace \<Rightarrow> error option outcome \<times> File \<times> trace" where
  "Close env f tr =
     (case Close_tempFile env f tr of
        (Some err, f1, tr1) \<Rightarrow> Close_deferred env (tempFile f) False [err] f1 tr1
      | (None, f1, tr1) \<Rightarrow>
          (case Close_writeBuffer env f1 tr1 of
             (Some err, f2, tr2) \<Rightarrow> Close_deferred env (tempFile f) False [err] f2 tr2
           | (None, f2, tr2) \<Rightarrow>
               (let f3 = f2\<lparr>writeBuffer := None\<rparr> in
                case waitUntilFileExists env (S3File f3) 5 tr2 of
                  (Panic, tr3) \<Rightarrow> Close_deferred env (tempFile f) True [] f3 tr3
                | (Return rerr, tr3) \<Rightarrow> Close_deferred env (tempFile f) False [] f3 tr3)))"

section \<open>Delete\<close>

definition Delete :: "env \<Rightarrow> File \<Rightarrow> trace \<Rightarrow> error option outcome \<times> File \<times> trace" where
  "Delete env f tr =
     (case Close env (f\<lparr>writeBuffer := None\<rparr>) tr of
        (Panic, f1, tr1) \<Rightarrow> (Panic, f1, tr1)
      | (Return (Some err), f1, tr1) \<Rightarrow> (Return (Some err), f1, tr1)
      | (Return None, f1, tr1) \<Rightarrow>
          (let tr2 = tr1 @ [EvDeleteObject (bucket f1) (key f1)] in
           (Return (DeleteObject env tr2), f1, tr2)))"

section \<open>Copy and move\<close>

text \<open>
  A \<open>vfs.File\<close> handed in as a destination is either an S3 file (the type assertion
  \<open>targetFile.(*File)\<close> succeeds) or a file of another backend, of which the code uses
  \<open>Write\<close> and \<open>Close\<close> through the interface: these are the operations of the record
  \<open>ops\<close>, acting on the other backend's own state.
\<close>

datatype 't target = S3Target File | OtherTarget 't

record 't ops =
  otherWrite :: "'t \<Rightarrow> bytes \<Rightarrow> error option \<times> 't"
  otherClose :: "'t \<Rightarrow> error option \<times> 't"

text \<open>
  A \<open>vfs.Location\<close>: the scheme of its file system, its volume, its path, and the
  \<open>NewFile\<close> factory of its file system.
\<close>

record 't Location =
  locScheme :: string
  locVolume :: string
  locPath :: string
  locNewFile :: "string \<Rightarrow> string \<Rightarrow> error + 't target"

text \<open>
  Modelled from the spec: the package constant \<open>Scheme\<close> is declared outside
  \<open>file.go\<close>; it is the store-family discriminator of this backend.
\<close>

definition Scheme :: string where
  "Scheme = ''s3''"

definition target_Write :: "'t ops \<Rightarrow> 't target \<Rightarrow> bytes \<Rightarrow> error option \<times> 't target" where
  "target_Write ops tgt data =
     (case tgt of
        S3Target g \<Rightarrow> (let (r, g') = Write g data in (snd r, S3Target g'))
      | OtherTarget t \<Rightarrow> (let (e, t') = otherWrite ops t data in (e, OtherTarget t')))"

definition target_Close ::
  "'t ops \<Rightarrow> env \<Rightarrow> 't target \<Rightarrow> trace \<Rightarrow> error option outcome \<times> 't target \<times> trace" where
  "target_Close ops env tgt tr =
     (case tgt of
        S3Target g \<Rightarrow> (let (r, g', tr') = Close env g tr in (r, S3Target g', tr'))
      | OtherTarget t \<Rightarrow> (let (e, t') = otherClose ops t in (Return e, OtherTarget t', tr)))"

text \<open>
  Go's \<open>io.Copy\<close> from the S3 file: it reads the source through \<open>Read\<close> in chunks of
  32 KiB until \<open>io.EOF\<close> and writes each chunk to the destination, stopping at the first
  failure.  The first \<open>Read\<close> materialises the mirror; the cursor ends after the last
  chunk read.
\<close>

fun chunks :: "nat \<Rightarrow> bytes \<Rightarrow> bytes list" where
  "chunks n xs = (if n = 0 \<or> xs = [] then [] else take n xs # chunks n (drop n xs))"

declare chunks.simps [simp del]

primrec writeChunks :: "'t ops \<Rightarrow> 't target \<Rightarrow> bytes list \<Rightarrow> error option \<times> 't target \<times> nat" where
  "writeChunks ops tgt [] = (None, tgt, 0)"
| "writeChunks ops tgt (c # cs) =
     (case target_Write ops tgt c of
        (Some err, tgt') \<Rightarrow> (Some err, tgt', length c)
      | (None, tgt') \<Rightarrow>
          (case writeChunks ops tgt' cs of (r, tgt'', n) \<Rightarrow> (r, tgt'', length c + n)))"

definition ioCopy ::
  "'t ops \<Rightarrow> env \<Rightarrow> 't target \<Rightarrow> File \<Rightarrow> trace \<Rightarrow> error option \<times> 't target \<times> File \<times> trace" where
  "ioCopy ops env tgt f tr =
     (case checkTempFile env f tr of
        (Some err, f1, tr1) \<Rightarrow> (Some err, tgt, f1, tr1)
      | (None, f1, tr1) \<Rightarrow>
          (case tempFile f1 of
             None \<Rightarrow> (Some ErrInvalid, tgt, f1, tr1)
           | Some t \<Rightarrow>
               if tclosed t then (Some ErrClosed, tgt, f1, tr1)
               else
                 (case writeChunks ops tgt (chunks 32768 (drop (tpos t) (tdata t))) of
                    (r, tgt', n) \<Rightarrow> (r, tgt', f1\<lparr>tempFile := Some (t\<lparr>tpos := tpos t + n\<rparr>)\<rparr>, tr1))))"

text \<open>
  Modelled from the spec: \<open>vfs.TouchCopy\<close> is a helper of the \<open>vfs\<close> package, defined
  outside \<open>file.go\<close>.  The spec describes it as the generic stream copy: given
  a readable source and a writable destination it transfers all bytes, propagating any
  read or write error.
\<close>

definition TouchCopy ::
  "'t ops \<Rightarrow> env \<Rightarrow> 't target \<Rightarrow> File \<Rightarrow> trace \<Rightarrow> error option \<times> 't target \<times> File \<times> trace" where
  "TouchCopy ops env tgt f tr = ioCopy ops env tgt f tr"

definition copyWithinS3ToFile :: "env \<Rightarrow> File \<Rightarrow> File \<Rightarrow> trace \<Rightarrow> error option \<times> trace" where
  "copyWithinS3ToFile env f targetFile tr =
     (let tr' = tr @ [EvCopyObject (bucket targetFile) (key targetFile)
                        (pathJoin env (bucket f) (key f))]
      in (CopyObject env tr', tr'))"

definition copyWithinS3ToLocation ::
  "env \<Rightarrow> File \<Rightarrow> 't Location \<Rightarrow> trace \<Rightarrow> (error + 't target) \<times> trace" where
  "copyWithinS3ToLocation env f location tr =
     (let tr' = tr @ [EvCopyObject (locVolume location) (pathJoin env (locPath location) (Name f))
                        (pathJoin env (bucket f) (key f))]
      in case CopyObject env tr' of
           Some err \<Rightarrow> (Inl err, tr')
         | None \<Rightarrow>
             (locNewFile location (locVolume location) (pathJoin env (locPath location) (Name f)),
              tr'))"

definition CopyToFile ::
  "'t ops \<Rightarrow> env \<Rightarrow> File \<Rightarrow> 't target \<Rightarrow> trace
     \<Rightarrow> error option outcome \<times> File \<times> 't target \<times> trace" where
  "CopyToFile ops env f targetFile tr =
     (case targetFile of
        S3Target tf \<Rightarrow>
          (case copyWithinS3ToFile env f tf tr of (r, tr') \<Rightarrow> (Return r, f, targetFile, tr'))
      | OtherTarget t \<Rightarrow>
          (case TouchCopy ops env targetFile f tr of
             (Some err, tgt1, f1, tr1) \<Rightarrow> (Return (Some err), f1, tgt1, tr1)
           | (None, tgt1, f1, tr1) \<Rightarrow>
               (case target_Close ops env tgt1 tr1 of
                  (Panic, tgt2, tr2) \<Rightarrow> (Panic, f1, tgt2, tr2)
                | (Return (Some cerr), tgt2, tr2) \<Rightarrow> (Return (Some cerr), f1, tgt2, tr2)
                | (Return None, tgt2, tr2) \<Rightarrow>
                    (case Close env f1 tr2 of
                       (Panic, f2, tr3) \<Rightarrow> (Panic, f2, tgt2, tr3)
                     | (Return (Some cerr), f2, tr3) \<Rightarrow> (Return (Some cerr), f2, tgt2, tr3)
                     | (Return None, f2, tr3) \<Rightarrow> (Return None, f2, tgt2, tr3)))))"

definition MoveToFile ::
  "'t ops \<Rightarrow> env \<Rightarrow> File \<Rightarrow> 't target \<Rightarrow> trace
     \<Rightarrow> error option outcome \<times> File \<times> 't target \<times> trace" where
  "MoveToFile ops env f targetFile tr =
     (case CopyToFile ops env f targetFile tr of
        (Panic, f1, tgt1, tr1) \<Rightarrow> (Panic, f1, tgt1, tr1)
      | (Return (Some err), f1, tgt1, tr1) \<Rightarrow> (Return (Some err), f1, tgt1, tr1)
      | (Return None, f1, tgt1, tr1) \<Rightarrow>
          (case Delete env f1 tr1 of (r, f2, tr2) \<Rightarrow> (r, f2, tgt1, tr2)))"

definition CopyToLocation ::
  "'t ops \<Rightarrow> env \<Rightarrow> File \<Rightarrow> 't Location \<Rightarrow> trace
     \<Rightarrow> (error + 't target) outcome \<times> File \<times> trace" where
  "CopyToLocation ops env f location tr =
     (if locScheme location = Scheme
      then (case copyWithinS3ToLocation env f location tr of (r, tr') \<Rightarrow> (Return r, f, tr'))
      else
        (case locNewFile location (locVolume location) (pathJoin env (locPath location) (Name f)) of
           Inl err \<Rightarrow> (Return (Inl err), f, tr)
         | Inr newF \<Rightarrow>
             (case ioCopy ops env newF f tr of
                (Some err, tgt1, f1, tr1) \<Rightarrow> (Return (Inl err), f1, tr1)
              | (None, tgt1, f1, tr1) \<Rightarrow>
                  (case target_Close ops env tgt1 tr1 of
                     (Panic, tgt2, tr2) \<Rightarrow> (Panic, f1, tr2)
                   | (Return (Some cerr), tgt2, tr2) \<Rightarrow> (Return (Inl cerr), f1, tr2)
                   | (Return None, tgt2, tr2) \<Rightarrow>
                       (case Close env f1 tr2 of
                          (Panic, f2, tr3) \<Rightarrow> (Panic, f2, tr3)
                        | (Return (Some cerr), f2, tr3) \<Rightarrow> (Return (Inl cerr), f2, tr3)
                        | (Return None, f2, tr3) \<Rightarrow> (Return (Inr tgt2), f2, tr3))))))"

text \<open>The result is the pair \<open>(vfs.File, error)\<close>, \<open>None\<close> for \<open>nil\<close> on either side.\<close>

definition MoveToLocation ::
  "'t ops \<Rightarrow> env \<Rightarrow> File \<Rightarrow> 't Location \<Rightarrow> trace
     \<Rightarrow> ('t target option \<times> error option) outcome \<times> File \<times> trace" where
  "MoveToLocation ops env f location tr =
     (case CopyToLocation ops env f location tr of
        (Panic, f1, tr1) \<Rightarrow> (Panic, f1, tr1)
      | (Return (Inl err), f1, tr1) \<Rightarrow> (Return (None, Some err), f1, tr1)
      | (Return (Inr newF), f1, tr1) \<Rightarrow>
          (case Delete env f1 tr1 of
             (Panic, f2, tr2) \<Rightarrow> (Panic, f2, tr2)
           | (Return delErr, f2, tr2) \<Rightarrow> (Return (Some newF, delErr), f2, tr2)))"

section \<open>Counting calls, and concrete files and environments\<close>

definition isHead :: "event \<Rightarrow> bool" where
  "isHead e = (case e of EvHeadObject b k \<Rightarrow> True | _ \<Rightarrow> False)"

definition headCalls :: "trace \<Rightarrow> nat" where
  "headCalls tr = length (filter isHead tr)"

definition isDelete :: "event \<Rightarrow> bool" where
  "isDelete e = (case e of EvDeleteObject b k \<Rightarrow> True | _ \<Rightarrow> False)"

definition deleteCalls :: "trace \<Rightarrow> nat" where
  "deleteCalls tr = length (filter isDelete tr)"

text \<open>The calls the poller can make on a file: the metadata query and the sleep.\<close>

definition pollEvents :: "File \<Rightarrow> event set" where
  "pollEvents f = {EvHeadObject (bucket f) (key f), EvSleep}"

definition sampleFile :: File where
  "sampleFile = \<lparr>fileSystem = 1, bucket = ''docs'', key = ''a/b/report.txt'',
                  tempFile = None, writeBuffer = None\<rparr>"

text \<open>
  An environment in which every call succeeds: the object is visible and holds three
  bytes, and the uploader consumes the whole buffer it is given.
\<close>

definition quietEnv :: env where
  "quietEnv =
     \<lparr>HeadObject = (\<lambda>tr. Inr \<lparr>LastModified = 0, ContentLength = 3\<rparr>),
      GetObject = (\<lambda>tr. Inr [1, 2, 3]),
      Upload = (\<lambda>tr. None),
      UploadRead = (\<lambda>tr. case last tr of EvUpload b k sse body \<Rightarrow> length body | _ \<Rightarrow> 0),
      CopyObject = (\<lambda>tr. None),
      DeleteObject = (\<lambda>tr. None),
      TempFile = (\<lambda>tr. Inr ''/tmp/report.txt.1''),
      CopyToTemp = (\<lambda>tr. None),
      SeekTemp = (\<lambda>tr. None),
      Remove = (\<lambda>tr. None),
      CloseTemp = (\<lambda>tr. None),
      GetFileURI = (\<lambda>f. ''s3://'' @ bucket f @ Path f),
      pathJoin = (\<lambda>a b. a @ ''/'' @ b)\<rparr>"

text \<open>
  A metadata query that answers by a script: the \<open>k\<close>-th query succeeds when the
  \<open>k\<close>-th entry is \<open>True\<close> and fails with the not-found code otherwise, also past the
  end of the script.
\<close>

definition existsScript :: "bool list \<Rightarrow> trace \<Rightarrow> error + HeadObjectOutput" where
  "existsScript bs tr =
     (if headCalls tr - 1 < length bs \<and> bs ! (headCalls tr - 1)
      then Inr \<lparr>LastModified = 0, ContentLength = 3\<rparr>
      else Inl (AwsError ''NotFound'' ''Not Found''))"

text \<open>
  Files with pending state, and environments in which one call fails.
\<close>

definition bufferedFile :: File where
  "bufferedFile = sampleFile\<lparr>writeBuffer := Some [104, 105]\<rparr>"

definition mirror :: temp where
  "mirror = \<lparr>tname = ''/tmp/report.txt.1'', tdata = [1, 2, 3], tpos = 0, tclosed = False\<rparr>"

definition mirroredFile :: File where
  "mirroredFile = sampleFile\<lparr>tempFile := Some mirror, writeBuffer := Some [104, 105]\<rparr>"

definition uploadFails :: env where
  "uploadFails = quietEnv\<lparr>Upload := (\<lambda>tr. Some (AwsError ''InternalError'' ''We encountered an internal error''))\<rparr>"

text \<open>
  The removal of the mirror's storage lets Close go on: it succeeds, or fails with
  \<open>os.IsNotExist\<close>.
\<close>

definition removalOk :: "env \<Rightarrow> trace \<Rightarrow> bool" where
  "removalOk env tr = (case Remove env tr of None \<Rightarrow> True | Some err \<Rightarrow> IsNotExist err)"

definition removeFails :: env where
  "removeFails = quietEnv\<lparr>Remove := (\<lambda>tr. Some (OsError False ''permission denied''))\<rparr>"

text \<open>
  A run of Write calls on one File, and the File it leaves.
\<close>

primrec writeAll :: "File \<Rightarrow> bytes list \<Rightarrow> File" where
  "writeAll f [] = f"
| "writeAll f (d # ds) = writeAll (snd (Write f d)) ds"

definition isUpload :: "event \<Rightarrow> bool" where
  "isUpload e = (case e of EvUpload b k sse body \<Rightarrow> True | _ \<Rightarrow> False)"

text \<open>
  The identity fields of a File.
\<close>

definition identity :: "File \<Rightarrow> nat \<times> string \<times> string" where
  "identity f = (fileSystem f, bucket f, key f)"



definition isGet :: "event \<Rightarrow> bool" where
  "isGet e = (case e of EvGetObject b k \<Rightarrow> True | _ \<Rightarrow> False)"

definition getCalls :: "trace \<Rightarrow> nat" where
  "getCalls tr = length (filter isGet tr)"

text \<open>
  Every step of the materialisation succeeds from the trace \<open>tr\<close>: the temporary file
  is created under the name \<open>nm\<close>, the object is retrieved with the content \<open>body\<close>,
  the copy into the file and the seek to its start succeed.
\<close>

definition materialised :: "env \<Rightarrow> File \<Rightarrow> trace \<Rightarrow> string \<Rightarrow> bytes \<Rightarrow> bool" where
  "materialised env f tr nm body =
     (TempFile env (tr @ [EvTempFile (Name f)]) = Inr nm
      \<and> GetObject env (tr @ [EvTempFile (Name f), EvGetObject (bucket f) (key f)]) = Inr body
      \<and> CopyToTemp env (tr @ [EvTempFile (Name f), EvGetObject (bucket f) (key f), EvCopyToTemp nm]) = None
      \<and> SeekTemp env (tr @ [EvTempFile (Name f), EvGetObject (bucket f) (key f), EvCopyToTemp nm,
                            EvSeekTemp nm]) = None)"


text \<open>
  A destination file and location on S3, another backend that keeps the bytes written to
  it in memory, and environments in which the copy or the delete request fails.
\<close>

definition backupFile :: File where
  "backupFile = \<lparr>fileSystem = 1, bucket = ''backup'', key = ''report.txt'',
                  tempFile = None, writeBuffer = None\<rparr>"

definition memOps :: "bytes ops" where
  "memOps = \<lparr>otherWrite = (\<lambda>t data. (None, t @ data)), otherClose = (\<lambda>t. (None, t))\<rparr>"

definition backupLocation :: "bytes Location" where
  "backupLocation =
     \<lparr>locScheme = ''s3'', locVolume = ''backup'', locPath = ''2024'',
      locNewFile = (\<lambda>volume name. map_sum id S3Target (newFile (Some 1) volume name))\<rparr>"

definition copyFails :: env where
  "copyFails = quietEnv\<lparr>CopyObject := (\<lambda>tr. Some (AwsError ''AccessDenied'' ''Access Denied''))\<rparr>"

definition deleteFails :: env where
  "deleteFails = quietEnv\<lparr>DeleteObject := (\<lambda>tr. Some (AwsError ''AccessDenied'' ''Access Denied''))\<rparr>"

text \<open>An environment in which the metadata query fails with an error that is not an AWS error value.\<close>

definition connectionReset :: env where
  "connectionReset = quietEnv\<lparr>HeadObject := (\<lambda>tr. Inl (ErrorString ''connection reset''))\<rparr>"

text \<open>
  Close gets past the commit: neither the removal of the mirror's storage nor the upload
  makes it return early.
\<close>

definition pastCommit :: "env \<Rightarrow> File \<Rightarrow> trace \<Rightarrow> bool" where
  "pastCommit env f tr =
     (case Close_tempFile env f tr of
        (Some err, f1, tr1) \<Rightarrow> False
      | (None, f1, tr1) \<Rightarrow>
          (case Close_writeBuffer env f1 tr1 of
             (Some err, f2, tr2) \<Rightarrow> False
           | (None, f2, tr2) \<Rightarrow> True))"

section \<open>Exists\<close>

lemma Exists_eq:
  "Exists env f tr =
     (let tr' = tr @ [EvHeadObject (bucket f) (key f)] in
      case HeadObject env tr' of
        Inr h \<Rightarrow> (Return (True, None), tr')
      | Inl err \<Rightarrow>
          (case awserrCode err of
             None \<Rightarrow> (Panic, tr')
           | Some code \<Rightarrow>
               if code = ''NoSuchKey'' \<or> code = ''NotFound''
               then (Return (False, None), tr')
               else (Return (False, Some err), tr')))"
  by (simp add: Exists_def getHeadObject_def ErrCodeNoSuchKey_def Let_def
           split: sum.splits option.splits)

lemma Exists_trace: "snd (Exists env f tr) = tr @ [EvHeadObject (bucket f) (key f)]"
  by (simp add: Exists_eq Let_def split: sum.splits option.splits)

text \<open>
  C5, at a transport failure that is not an AWS error value: the claim says that Exists
  returns \<open>(false, err)\<close>, as its own last branch does for an error it has looked at;
  the unchecked type assertion panics before that, while \<open>LastModified\<close>, on the same
  query and the same failure, returns the error.
\<close>

theorem Exists_transport_error_panics:
  "HeadObject connectionReset [EvHeadObject ''docs'' ''a/b/report.txt''] = Inl (ErrorString ''connection reset'')
   \<and> Exists connectionReset sampleFile [] = (Panic, [EvHeadObject ''docs'' ''a/b/report.txt''])
   \<and> File_LastModified connectionReset sampleFile []
       = (Inl (ErrorString ''connection reset''), [EvHeadObject ''docs'' ''a/b/report.txt''])"
  by (simp add: Exists_eq File_LastModified_def getHeadObject_def connectionReset_def quietEnv_def
        sampleFile_def)

text \<open>
  The rest of C5 holds on the code: Exists returns \<open>(false, nil)\<close> exactly when the query
  fails with the code \<open>NoSuchKey\<close> or \<open>NotFound\<close>, returns \<open>(false, err)\<close> with the
  query's own error for any other AWS error code, and \<open>(true, nil)\<close> when the query
  succeeds; no failure other than not-found is reported as "does not exist".
\<close>

lemma Exists_results:
  "((fst (Exists env f tr) = Return (False, None)) =
           (\<exists>code msg. HeadObject env (tr @ [EvHeadObject (bucket f) (key f)]) = Inl (AwsError code msg)
              \<and> (code = ''NoSuchKey'' \<or> code = ''NotFound'')))
    \<and> (\<forall>code msg. HeadObject env (tr @ [EvHeadObject (bucket f) (key f)]) = Inl (AwsError code msg)
             \<and> code \<noteq> ''NoSuchKey'' \<and> code \<noteq> ''NotFound''
           \<longrightarrow> fst (Exists env f tr) = Return (False, Some (AwsError code msg)))
    \<and> (\<forall>head. HeadObject env (tr @ [EvHeadObject (bucket f) (key f)]) = Inr head
           \<longrightarrow> fst (Exists env f tr) = Return (True, None))"
proof -
  let ?q = "HeadObject env (tr @ [EvHeadObject (bucket f) (key f)])"
  have a: "(fst (Exists env f tr) = Return (False, None)) =
           (\<exists>code msg. ?q = Inl (AwsError code msg) \<and> (code = ''NoSuchKey'' \<or> code = ''NotFound''))"
  proof (cases ?q)
    case (Inl err)
    then show ?thesis by (cases err) (auto simp: Exists_eq Let_def)
  next
    case (Inr head)
    then show ?thesis by (simp add: Exists_eq Let_def)
  qed
  have b: "\<forall>code msg. ?q = Inl (AwsError code msg) \<and> code \<noteq> ''NoSuchKey'' \<and> code \<noteq> ''NotFound''
           \<longrightarrow> fst (Exists env f tr) = Return (False, Some (AwsError code msg))"
    by (simp add: Exists_eq Let_def)
  have c: "\<forall>head. ?q = Inr head \<longrightarrow> fst (Exists env f tr) = Return (True, None)"
    by (simp add: Exists_eq Let_def)
  from a b c show ?thesis by blast
qed

lemma Exists_results_examples:
  "fst (Exists (quietEnv\<lparr>HeadObject := (\<lambda>tr. Inl (AwsError ''NotFound'' ''Not Found''))\<rparr>) sampleFile [])
     = Return (False, None)
   \<and> fst (Exists (quietEnv\<lparr>HeadObject := (\<lambda>tr. Inl (AwsError ''AccessDenied'' ''Forbidden''))\<rparr>) sampleFile [])
     = Return (False, Some (AwsError ''AccessDenied'' ''Forbidden''))
   \<and> fst (Exists quietEnv sampleFile []) = Return (True, None)"
  by (simp add: Exists_eq quietEnv_def)

text \<open>
  C10: when the metadata query fails with an error that is not an AWS error value, the
  type assertion fails and Exists panics; and whenever Exists returns \<open>(false, err)\<close>
  with a non-nil error, that error is the query's own and is an AWS error value.
\<close>

theorem Exists_panics_unless_aws:
  "(HeadObject env (tr @ [EvHeadObject (bucket f) (key f)]) = Inl err \<and> awserrCode err = None
      \<longrightarrow> fst (Exists env f tr) = Panic)
   \<and> (fst (Exists env f tr) = Return (False, Some err)
      \<longrightarrow> (\<exists>code msg. err = AwsError code msg)
          \<and> HeadObject env (tr @ [EvHeadObject (bucket f) (key f)]) = Inl err)"
  by (cases err) (auto simp: Exists_eq Let_def split: sum.splits option.splits if_splits)

theorem Exists_panics_unless_aws_witness:
  "fst (Exists (quietEnv\<lparr>HeadObject := (\<lambda>tr. Inl (OsError False ''broken pipe''))\<rparr>) sampleFile []) = Panic
   \<and> fst (Exists (quietEnv\<lparr>HeadObject := (\<lambda>tr. Inl (AwsError ''SlowDown'' ''Reduce rate''))\<rparr>) sampleFile [])
       = Return (False, Some (AwsError ''SlowDown'' ''Reduce rate''))
   \<and> (\<exists>code msg. AwsError ''SlowDown'' ''Reduce rate'' = AwsError code msg)"
proof -
  let ?bp = "quietEnv\<lparr>HeadObject := (\<lambda>tr. Inl (OsError False ''broken pipe''))\<rparr>"
  let ?sd = "quietEnv\<lparr>HeadObject := (\<lambda>tr. Inl (AwsError ''SlowDown'' ''Reduce rate''))\<rparr>"
  have h1: "HeadObject ?bp ([] @ [EvHeadObject (bucket sampleFile) (key sampleFile)])
              = Inl (OsError False ''broken pipe'')
            \<and> awserrCode (OsError False ''broken pipe'') = None"
    by (simp add: quietEnv_def)
  have r1: "fst (Exists ?bp sampleFile []) = Panic"
    using Exists_panics_unless_aws [of ?bp "[]" sampleFile "OsError False ''broken pipe''"] h1
    by blast
  have h2: "fst (Exists ?sd sampleFile []) = Return (False, Some (AwsError ''SlowDown'' ''Reduce rate''))"
    by (simp add: Exists_eq quietEnv_def)
  have r2: "\<exists>code msg. AwsError ''SlowDown'' ''Reduce rate'' = AwsError code msg"
    using Exists_panics_unless_aws [of ?sd "[]" sampleFile "AwsError ''SlowDown'' ''Reduce rate''"] h2
    by blast
  from r1 h2 r2 show ?thesis by blast
qed

section \<open>The poller and Close: the calls they make\<close>

lemma headCalls_append [simp]: "headCalls (xs @ ys) = headCalls xs + headCalls ys"
  by (simp add: headCalls_def)

lemma headCalls_simps [simp]:
  "headCalls [] = 0"
  "headCalls (EvHeadObject b k # tr) = Suc (headCalls tr)"
  "headCalls (EvSleep # tr) = headCalls tr"
  by (simp_all add: headCalls_def isHead_def)

lemma waitLoop_timeout:
  "waitLoop env f retries retries tr =
     (Return (Some (ErrorString
        (''Failed to find file '' @ GetFileURI env f @ '' after '' @ show_int (sint retries)))), tr)"
  by (subst waitLoop.simps) simp

lemma waitLoop_step:
  "retryCount \<noteq> retries \<Longrightarrow>
   waitLoop env f retries retryCount tr =
     (case Exists env f tr of
        (Panic, tr') \<Rightarrow> (Panic, tr')
      | (Return (found, Some err), tr') \<Rightarrow>
          (Return (Some (ErrorString ''unable to check for file on S3'')), tr')
      | (Return (found, None), tr') \<Rightarrow>
          if found then (Return None, tr')
          else waitLoop env f retries (retryCount + 1) (tr' @ [EvSleep]))"
  by (subst waitLoop.simps) simp

lemma unat_diff_succ:
  "(c :: 64 word) \<noteq> r \<Longrightarrow> unat (r - c) = Suc (unat (r - (c + 1)))"
proof -
  assume a: "c \<noteq> r"
  have e: "r - (c + 1) = (r - c) - 1" by simp
  have nz: "r - c \<noteq> 0" using a by simp
  then have "0 < unat (r - c)" by (simp add: unat_gt_0)
  moreover have "unat ((r - c) - 1) = unat (r - c) - 1" using nz by (simp add: unat_minus_one)
  ultimately show ?thesis unfolding e by simp
qed

lemma waitLoop_trace:
  "\<exists>evs. snd (waitLoop env f retries retryCount tr) = tr @ evs
        \<and> set evs \<subseteq> pollEvents f
        \<and> headCalls evs \<le> unat (retries - retryCount)
        \<and> (retryCount \<noteq> retries \<longrightarrow> 1 \<le> headCalls evs)"
proof (induction env f retries retryCount tr rule: waitLoop.induct)
  case (1 env f retries retryCount tr)
  show ?case
  proof (cases "retryCount = retries")
    case True
    then show ?thesis by (simp add: waitLoop_timeout)
  next
    case False
    let ?h = "EvHeadObject (bucket f) (key f)"
    obtain r tr' where ex: "Exists env f tr = (r, tr')" by (cases "Exists env f tr")
    then have tr': "tr' = tr @ [?h]" using Exists_trace [of env f tr] by simp
    have pos: "1 \<le> unat (retries - retryCount)" using unat_diff_succ [OF False] by simp
    show ?thesis
    proof (cases "r = Return (False, None)")
      case True
      from "1.IH" [OF False ex [symmetric] True refl refl] 
      obtain evs where evs: "snd (waitLoop env f retries (retryCount + 1) (tr' @ [EvSleep])) = (tr' @ [EvSleep]) @ evs"
        "set evs \<subseteq> pollEvents f" "headCalls evs \<le> unat (retries - (retryCount + 1))"
        by auto
      have "snd (waitLoop env f retries retryCount tr) = tr @ ([?h, EvSleep] @ evs)"
        using False ex True evs(1) tr' by (simp add: waitLoop_step)
      moreover have "set ([?h, EvSleep] @ evs) \<subseteq> pollEvents f"
        using evs(2) by (simp add: pollEvents_def)
      moreover have "headCalls ([?h, EvSleep] @ evs) \<le> unat (retries - retryCount)"
        using evs(3) unat_diff_succ [OF False] by simp
      moreover have "1 \<le> headCalls ([?h, EvSleep] @ evs)" by simp
      ultimately show ?thesis by blast
    next
      case n: False
      have "snd (waitLoop env f retries retryCount tr) = tr @ [?h]"
        using False ex n tr'
        by (auto simp: waitLoop_step split: outcome.splits option.splits prod.splits)
      moreover have "set [?h] \<subseteq> pollEvents f" by (simp add: pollEvents_def)
      moreover have "headCalls [?h] \<le> unat (retries - retryCount)" using pos by simp
      moreover have "1 \<le> headCalls [?h]" by simp
      ultimately show ?thesis by blast
    qed
  qed
qed


lemma deleteCalls_append [simp]: "deleteCalls (xs @ ys) = deleteCalls xs + deleteCalls ys"
  by (simp add: deleteCalls_def)

lemma deleteCalls_poll: "set evs \<subseteq> pollEvents f \<Longrightarrow> deleteCalls evs = 0"
  by (auto simp: deleteCalls_def pollEvents_def isDelete_def filter_empty_conv)

lemma waitUntil_trace:
  "\<exists>evs. snd (waitUntilFileExists env (S3File f) 5 tr) = tr @ evs
        \<and> set evs \<subseteq> pollEvents f \<and> 1 \<le> headCalls evs \<and> headCalls evs \<le> 5"
proof -
  have ne: "(5 :: 64 word) \<noteq> - 1" by simp
  have z: "(0 :: 64 word) \<noteq> 5" by simp
  from waitLoop_trace [of env f 5 0 tr] z
  show ?thesis using ne by (auto simp: waitUntilFileExists_def)
qed

lemma File_writeBuffer_None [simp]: "writeBuffer f = None \<Longrightarrow> f\<lparr>writeBuffer := None\<rparr> = f"
  by (cases f) simp

lemma Close_cleared:
  "tempFile f = None \<Longrightarrow> writeBuffer f = None \<Longrightarrow>
   Close env f tr =
     (case waitUntilFileExists env (S3File f) 5 tr of
        (Panic, tr3) \<Rightarrow> (Panic, f, tr3)
      | (Return rerr, tr3) \<Rightarrow> (Return None, f, tr3))"
  by (simp add: Close_def Close_tempFile_def Close_writeBuffer_def Close_deferred_def OrNil_def
           split: prod.splits outcome.splits)

lemma waitUntil_found:
  "HeadObject env (tr @ [EvHeadObject (bucket f) (key f)]) = Inr head \<Longrightarrow>
   waitUntilFileExists env (S3File f) 5 tr = (Return None, tr @ [EvHeadObject (bucket f) (key f)])"
  by (simp add: waitUntilFileExists_def waitLoop_step Exists_eq)

lemma Close_tempFile_trace:
  "\<exists>evs. snd (snd (Close_tempFile env f tr)) = tr @ evs \<and> headCalls evs = 0 \<and> deleteCalls evs = 0"
  by (auto simp: Close_tempFile_def Let_def headCalls_def deleteCalls_def isHead_def isDelete_def
           split: option.splits)

lemma Close_writeBuffer_trace:
  "\<exists>evs. snd (snd (Close_writeBuffer env f tr)) = tr @ evs \<and> headCalls evs = 0 \<and> deleteCalls evs = 0"
  by (auto simp: Close_writeBuffer_def Let_def headCalls_def deleteCalls_def isHead_def isDelete_def
           split: option.splits)

lemma Close_deferred_trace:
  "\<exists>evs. snd (snd (Close_deferred env entry p errs f tr)) = tr @ evs \<and> headCalls evs = 0 \<and> deleteCalls evs = 0"
  by (auto simp: Close_deferred_def Let_def headCalls_def deleteCalls_def isHead_def isDelete_def
           split: option.splits)

lemma Close_deferred_result:
  "fst (Close_deferred env entry p errs f tr) = Return None \<Longrightarrow> \<not> p \<and> errs = []"
  by (auto simp: Close_deferred_def Let_def OrNil_def DeferFunc_def split: option.splits if_splits)

lemma Close_deleteCalls: "deleteCalls (snd (snd (Close env f tr))) = deleteCalls tr"
proof -
  obtain e1 f1 tr1 where c1: "Close_tempFile env f tr = (e1, f1, tr1)" by (cases "Close_tempFile env f tr")
  obtain e2 f2 tr2 where c2: "Close_writeBuffer env f1 tr1 = (e2, f2, tr2)" by (cases "Close_writeBuffer env f1 tr1")
  obtain r3 tr3 where c3: "waitUntilFileExists env (S3File (f2\<lparr>writeBuffer := None\<rparr>)) 5 tr2 = (r3, tr3)"
    by (cases "waitUntilFileExists env (S3File (f2\<lparr>writeBuffer := None\<rparr>)) 5 tr2")
  have d1: "deleteCalls tr1 = deleteCalls tr" using Close_tempFile_trace [of env f tr] c1 by auto
  have d2: "deleteCalls tr2 = deleteCalls tr1" using Close_writeBuffer_trace [of env f1 tr1] c2 by auto
  have d3: "deleteCalls tr3 = deleteCalls tr2"
    using waitUntil_trace [of env "f2\<lparr>writeBuffer := None\<rparr>" tr2] c3 by (auto simp: deleteCalls_poll)
  have dd: "\<And>entry p errs g t. deleteCalls (snd (snd (Close_deferred env entry p errs g t))) = deleteCalls t"
  proof -
    fix entry p errs g t
    show "deleteCalls (snd (snd (Close_deferred env entry p errs g t))) = deleteCalls t"
      using Close_deferred_trace [of env entry p errs g t] by auto
  qed
  show ?thesis
    using c1 c2 c3 d1 d2 d3 dd
    by (auto simp: Close_def Let_def split: option.splits outcome.splits)
qed

lemma Close_success_polls:
  assumes "fst (Close env f tr) = Return None"
  shows "headCalls tr < headCalls (snd (snd (Close env f tr)))"
proof -
  obtain e1 f1 tr1 where c1: "Close_tempFile env f tr = (e1, f1, tr1)" by (cases "Close_tempFile env f tr")
  obtain e2 f2 tr2 where c2: "Close_writeBuffer env f1 tr1 = (e2, f2, tr2)" by (cases "Close_writeBuffer env f1 tr1")
  obtain r3 tr3 where c3: "waitUntilFileExists env (S3File (f2\<lparr>writeBuffer := None\<rparr>)) 5 tr2 = (r3, tr3)"
    by (cases "waitUntilFileExists env (S3File (f2\<lparr>writeBuffer := None\<rparr>)) 5 tr2")
  have e1: "e1 = None"
    using assms c1 Close_deferred_result [of env "tempFile f" False "[the e1]" f1 tr1]
    by (cases e1) (auto simp: Close_def)
  have e2: "e2 = None"
    using assms c1 c2 e1 Close_deferred_result [of env "tempFile f" False "[the e2]" f2 tr2]
    by (cases e2) (auto simp: Close_def)
  have d1: "headCalls tr1 = headCalls tr" using Close_tempFile_trace [of env f tr] c1 by auto
  have d2: "headCalls tr2 = headCalls tr1" using Close_writeBuffer_trace [of env f1 tr1] c2 by auto
  have d3: "headCalls tr2 < headCalls tr3"
    using waitUntil_trace [of env "f2\<lparr>writeBuffer := None\<rparr>" tr2] c3 by auto
  have dd: "\<And>p. headCalls (snd (snd (Close_deferred env (tempFile f) p [] (f2\<lparr>writeBuffer := None\<rparr>) tr3))) = headCalls tr3"
  proof -
    fix p
    show "headCalls (snd (snd (Close_deferred env (tempFile f) p [] (f2\<lparr>writeBuffer := None\<rparr>) tr3))) = headCalls tr3"
      using Close_deferred_trace [of env "tempFile f" p "[]" "f2\<lparr>writeBuffer := None\<rparr>" tr3] by auto
  qed
  show ?thesis
    using c1 c2 c3 e1 e2 d1 d2 d3 dd
    by (auto simp: Close_def Let_def split: outcome.splits)
qed


lemma Close_deferred_headCalls:
  "headCalls (snd (snd (Close_deferred env entry p errs g t))) = headCalls t"
  using Close_deferred_trace [of env entry p errs g t] by auto

lemma Close_polls_iff:
  "(headCalls tr < headCalls (snd (snd (Close env g tr)))) = pastCommit env g tr"
proof -
  obtain e1 f1 tr1 where c1: "Close_tempFile env g tr = (e1, f1, tr1)" by (cases "Close_tempFile env g tr")
  obtain e2 f2 tr2 where c2: "Close_writeBuffer env f1 tr1 = (e2, f2, tr2)" by (cases "Close_writeBuffer env f1 tr1")
  obtain r3 tr3 where c3: "waitUntilFileExists env (S3File (f2\<lparr>writeBuffer := None\<rparr>)) 5 tr2 = (r3, tr3)"
    by (cases "waitUntilFileExists env (S3File (f2\<lparr>writeBuffer := None\<rparr>)) 5 tr2")
  have d1: "headCalls tr1 = headCalls tr" using Close_tempFile_trace [of env g tr] c1 by auto
  have d2: "headCalls tr2 = headCalls tr1" using Close_writeBuffer_trace [of env f1 tr1] c2 by auto
  have d3: "headCalls tr2 < headCalls tr3"
    using waitUntil_trace [of env "f2\<lparr>writeBuffer := None\<rparr>" tr2] c3 by auto
  show ?thesis
  proof (cases e1)
    case (Some err)
    then show ?thesis using c1 d1 by (simp add: Close_def pastCommit_def Close_deferred_headCalls)
  next
    case None
    note n1 = this
    show ?thesis
    proof (cases e2)
      case (Some err)
      then show ?thesis
        using c1 c2 n1 d1 d2 by (simp add: Close_def pastCommit_def Close_deferred_headCalls)
    next
      case None
      then show ?thesis
        using c1 c2 c3 n1 d1 d2 d3
        by (cases r3) (simp_all add: Close_def pastCommit_def Close_deferred_headCalls Let_def)
    qed
  qed
qed

section \<open>Close without a pending write\<close>

lemma Close_cleared_trace:
  assumes "tempFile f = None" and "writeBuffer f = None"
  shows "\<exists>evs. snd (snd (Close env f tr)) = tr @ evs \<and> set evs \<subseteq> pollEvents f
            \<and> 1 \<le> headCalls evs \<and> headCalls evs \<le> 5"
    and "fst (snd (Close env f tr)) = f"
proof -
  obtain r3 tr3 where c3: "waitUntilFileExists env (S3File f) 5 tr = (r3, tr3)"
    by (cases "waitUntilFileExists env (S3File f) 5 tr")
  have cl: "snd (Close env f tr) = (f, tr3)"
    using assms c3 by (simp add: Close_cleared split: outcome.splits)
  show "\<exists>evs. snd (snd (Close env f tr)) = tr @ evs \<and> set evs \<subseteq> pollEvents f
            \<and> 1 \<le> headCalls evs \<and> headCalls evs \<le> 5"
    using waitUntil_trace [of env f tr] c3 cl by simp
  show "fst (snd (Close env f tr)) = f" using cl by simp
qed

text \<open>
  C1, amended: Close invokes the poller, with a budget of 5, exactly when it gets past
  the commit, that is when neither the removal of the mirror's storage nor the upload has
  failed, whether or not there was a write buffer: these are the Closes that make a
  metadata query.  So every Close that returns success has made at least one metadata
  query; and a Close on a File whose mirror and buffer are both cleared makes between one
  and five metadata queries, makes no other call than these and the sleeps between them,
  leaves the File as it was, and, when the object is visible at the first query, makes
  exactly one query and returns success.
\<close>

theorem Close_polls_without_write:
  "(fst (Close env g tr) = Return None \<longrightarrow> headCalls tr < headCalls (snd (snd (Close env g tr))))
   \<and> (tempFile f = None \<and> writeBuffer f = None \<longrightarrow>
        (\<exists>evs. snd (snd (Close env f tr)) = tr @ evs \<and> set evs \<subseteq> pollEvents f
            \<and> 1 \<le> headCalls evs \<and> headCalls evs \<le> 5)
        \<and> fst (snd (Close env f tr)) = f
        \<and> ((\<exists>head. HeadObject env (tr @ [EvHeadObject (bucket f) (key f)]) = Inr head) \<longrightarrow>
             Close env f tr = (Return None, f, tr @ [EvHeadObject (bucket f) (key f)])))
   \<and> ((headCalls tr < headCalls (snd (snd (Close env g tr)))) = pastCommit env g tr)"
proof -
  have d: "(headCalls tr < headCalls (snd (snd (Close env g tr)))) = pastCommit env g tr"
    by (rule Close_polls_iff)
  have a: "fst (Close env g tr) = Return None \<longrightarrow> headCalls tr < headCalls (snd (snd (Close env g tr)))"
    using Close_success_polls by blast
  have b: "tempFile f = None \<and> writeBuffer f = None \<longrightarrow>
        (\<exists>evs. snd (snd (Close env f tr)) = tr @ evs \<and> set evs \<subseteq> pollEvents f
            \<and> 1 \<le> headCalls evs \<and> headCalls evs \<le> 5)
        \<and> fst (snd (Close env f tr)) = f"
    using Close_cleared_trace [of f env tr] by blast
  have c: "tempFile f = None \<and> writeBuffer f = None \<longrightarrow>
       ((\<exists>head. HeadObject env (tr @ [EvHeadObject (bucket f) (key f)]) = Inr head) \<longrightarrow>
             Close env f tr = (Return None, f, tr @ [EvHeadObject (bucket f) (key f)]))"
    by (auto simp: Close_cleared waitUntil_found)
  from a b c d show ?thesis by blast
qed

lemma quiet_head: "HeadObject quietEnv tr = Inr \<lparr>LastModified = 0, ContentLength = 3\<rparr>"
  by (simp add: quietEnv_def)

text \<open>
  C1, as stated, on a File whose mirror and buffer are cleared: the claim says that a
  second consecutive Close performs no remote I/O; each of the two calls makes a
  metadata query.
\<close>

theorem second_Close_counterexample:
  "Close quietEnv sampleFile [] = (Return None, sampleFile, [EvHeadObject ''docs'' ''a/b/report.txt''])
   \<and> Close quietEnv sampleFile [EvHeadObject ''docs'' ''a/b/report.txt'']
       = (Return None, sampleFile, [EvHeadObject ''docs'' ''a/b/report.txt'', EvHeadObject ''docs'' ''a/b/report.txt''])"
  by (simp add: Close_cleared waitUntil_found [OF quiet_head] sampleFile_def)

theorem Close_polls_without_write_witness:
  "headCalls [] < headCalls (snd (snd (Close quietEnv sampleFile [])))
   \<and> Close quietEnv sampleFile [] = (Return None, sampleFile, [EvHeadObject ''docs'' ''a/b/report.txt''])"
proof -
  have h: "tempFile sampleFile = None \<and> writeBuffer sampleFile = None"
    by (simp add: sampleFile_def)
  have q: "\<exists>head. HeadObject quietEnv ([] @ [EvHeadObject (bucket sampleFile) (key sampleFile)]) = Inr head"
    by (simp add: quietEnv_def)
  have c: "Close quietEnv sampleFile [] = (Return None, sampleFile, [] @ [EvHeadObject (bucket sampleFile) (key sampleFile)])"
    using Close_polls_without_write [of quietEnv sampleFile "[]" sampleFile] h q by blast
  then have r: "fst (Close quietEnv sampleFile []) = Return None" by simp
  have "headCalls [] < headCalls (snd (snd (Close quietEnv sampleFile [])))"
    using Close_polls_without_write [of quietEnv sampleFile "[]" sampleFile] r by blast
  then show ?thesis using c by (simp add: sampleFile_def)
qed


section \<open>The poller at given budgets\<close>

lemma show_int_2: "show_int 2 = ''2''"
  by (simp add: show_int_def show_nat.simps)

lemma existsScript_simps:
  "existsScript bs (tr @ [EvHeadObject b k]) =
     (if headCalls tr < length bs \<and> bs ! headCalls tr
      then Inr \<lparr>LastModified = 0, ContentLength = 3\<rparr>
      else Inl (AwsError ''NotFound'' ''Not Found''))"
  by (simp add: existsScript_def)

text \<open>
  C2, at a retry budget of 2 with the object becoming visible at the third metadata
  query: the poller makes two queries, sleeps after each, and returns the time-out
  error without making the third.
\<close>

theorem poller_budget_2_third_check:
  "waitUntilFileExists (quietEnv\<lparr>HeadObject := existsScript [False, False, True]\<rparr>) (S3File sampleFile) 2 []
     = (Return (Some (ErrorString ''Failed to find file s3://docs/a/b/report.txt after 2'')),
        [EvHeadObject ''docs'' ''a/b/report.txt'', EvSleep,
         EvHeadObject ''docs'' ''a/b/report.txt'', EvSleep])"
proof -
  let ?env = "quietEnv\<lparr>HeadObject := existsScript [False, False, True]\<rparr>"
  let ?h = "EvHeadObject ''docs'' ''a/b/report.txt''"
  have uri: "GetFileURI ?env sampleFile = ''s3://docs/a/b/report.txt''"
    by (simp add: quietEnv_def sampleFile_def Path_def)
  have e1: "Exists ?env sampleFile [] = (Return (False, None), [?h])"
    using existsScript_simps [of "[False, False, True]" "[]"]
    by (simp add: Exists_eq quietEnv_def sampleFile_def)
  have e2: "Exists ?env sampleFile [?h, EvSleep] = (Return (False, None), [?h, EvSleep, ?h])"
    using existsScript_simps [of "[False, False, True]" "[?h, EvSleep]"]
    by (simp add: Exists_eq quietEnv_def sampleFile_def)
  have "waitLoop ?env sampleFile 2 0 [] = waitLoop ?env sampleFile 2 1 [?h, EvSleep]"
    using e1 by (simp add: waitLoop_step)
  also have "\<dots> = waitLoop ?env sampleFile 2 2 [?h, EvSleep, ?h, EvSleep]"
    using e2 by (simp add: waitLoop_step)
  also have "\<dots> = (Return (Some (ErrorString ''Failed to find file s3://docs/a/b/report.txt after 2'')),
        [?h, EvSleep, ?h, EvSleep])"
    using uri by (simp add: waitLoop_timeout show_int_2)
  finally show ?thesis by (simp add: waitUntilFileExists_def)
qed

text \<open>
  The other parts of C2 hold: the time-out when the object never becomes visible, the
  budget \<open>-1\<close> that returns at once without a query, and the error of a failed query,
  which ends the poll at once and differs from the time-out error.
\<close>

lemma poller_budget_2_never_visible:
  "waitUntilFileExists (quietEnv\<lparr>HeadObject := existsScript [False, False, False]\<rparr>) (S3File sampleFile) 2 []
     = (Return (Some (ErrorString ''Failed to find file s3://docs/a/b/report.txt after 2'')),
        [EvHeadObject ''docs'' ''a/b/report.txt'', EvSleep,
         EvHeadObject ''docs'' ''a/b/report.txt'', EvSleep])"
proof -
  let ?env = "quietEnv\<lparr>HeadObject := existsScript [False, False, False]\<rparr>"
  let ?h = "EvHeadObject ''docs'' ''a/b/report.txt''"
  have uri: "GetFileURI ?env sampleFile = ''s3://docs/a/b/report.txt''"
    by (simp add: quietEnv_def sampleFile_def Path_def)
  have e1: "Exists ?env sampleFile [] = (Return (False, None), [?h])"
    using existsScript_simps [of "[False, False, False]" "[]"]
    by (simp add: Exists_eq quietEnv_def sampleFile_def)
  have e2: "Exists ?env sampleFile [?h, EvSleep] = (Return (False, None), [?h, EvSleep, ?h])"
    using existsScript_simps [of "[False, False, False]" "[?h, EvSleep]"]
    by (simp add: Exists_eq quietEnv_def sampleFile_def)
  have "waitLoop ?env sampleFile 2 0 [] = waitLoop ?env sampleFile 2 1 [?h, EvSleep]"
    using e1 by (simp add: waitLoop_step)
  also have "\<dots> = waitLoop ?env sampleFile 2 2 [?h, EvSleep, ?h, EvSleep]"
    using e2 by (simp add: waitLoop_step)
  also have "\<dots> = (Return (Some (ErrorString ''Failed to find file s3://docs/a/b/report.txt after 2'')),
        [?h, EvSleep, ?h, EvSleep])"
    using uri by (simp add: waitLoop_timeout show_int_2)
  finally show ?thesis by (simp add: waitUntilFileExists_def)
qed

lemma poller_budget_minus_one:
  "waitUntilFileExists env vf (- 1) tr = (Return None, tr)"
  by (simp add: waitUntilFileExists_def split: vfs_File.splits)

lemma poller_Exists_error:
  assumes "retries \<noteq> - 1" and "retries \<noteq> 0"
    and "fst (Exists env f tr) = Return (found, Some err)"
  shows "waitUntilFileExists env (S3File f) retries tr
           = (Return (Some (ErrorString ''unable to check for file on S3'')),
              tr @ [EvHeadObject (bucket f) (key f)])"
    and "ErrorString ''unable to check for file on S3''
           \<noteq> ErrorString (''Failed to find file '' @ GetFileURI env f @ '' after '' @ show_int (sint retries))"
proof -
  have z: "(0 :: 64 word) \<noteq> retries" using assms(2) by simp
  obtain r tr' where ex: "Exists env f tr = (r, tr')" by (cases "Exists env f tr")
  then have "r = Return (found, Some err)" "tr' = tr @ [EvHeadObject (bucket f) (key f)]"
    using assms(3) Exists_trace [of env f tr] by simp_all
  then show "waitUntilFileExists env (S3File f) retries tr
           = (Return (Some (ErrorString ''unable to check for file on S3'')),
              tr @ [EvHeadObject (bucket f) (key f)])"
    using assms(1) z ex by (simp add: waitUntilFileExists_def waitLoop_step)
  show "ErrorString ''unable to check for file on S3''
           \<noteq> ErrorString (''Failed to find file '' @ GetFileURI env f @ '' after '' @ show_int (sint retries))"
    by simp
qed

lemma poller_budget_zero:
  "waitUntilFileExists env (S3File f) 0 tr
     = (Return (Some (ErrorString (''Failed to find file '' @ GetFileURI env f @ '' after 0''))), tr)"
  by (simp add: waitUntilFileExists_def waitLoop_timeout show_int_def show_nat.simps)

section \<open>Close with pending state\<close>

lemma Close_commit_fails:
  assumes "tempFile f = None" and "writeBuffer f = Some buf"
    and "Upload env (tr @ [EvUpload (bucket f) (key f) ''AES256'' buf]) = Some e"
  shows "Close env f tr =
           (Return (Some (MultiErr [e])),
            f\<lparr>writeBuffer := Some (drop (UploadRead env (tr @ [EvUpload (bucket f) (key f) ''AES256'' buf])) buf)\<rparr>,
            tr @ [EvUpload (bucket f) (key f) ''AES256'' buf])"
  using assms
  by (simp add: Close_def Close_tempFile_def Close_writeBuffer_def Close_deferred_def OrNil_def Let_def)

lemma Close_writeBuffer_first_event:
  assumes "tempFile f = None" and "writeBuffer f = Some buf"
  shows "\<exists>evs. snd (snd (Close env f tr)) = tr @ EvUpload (bucket f) (key f) ''AES256'' buf # evs"
proof -
  let ?u = "EvUpload (bucket f) (key f) ''AES256'' buf"
  let ?f2 = "f\<lparr>writeBuffer := Some (drop (UploadRead env (tr @ [?u])) buf)\<rparr>"
  show ?thesis
  proof (cases "Upload env (tr @ [?u])")
    case (Some e)
    then show ?thesis using Close_commit_fails [OF assms, of env tr e] by simp
  next
    case None
    obtain r3 tr3 where c3: "waitUntilFileExists env (S3File (?f2\<lparr>writeBuffer := None\<rparr>)) 5 (tr @ [?u]) = (r3, tr3)"
      by (cases "waitUntilFileExists env (S3File (?f2\<lparr>writeBuffer := None\<rparr>)) 5 (tr @ [?u])")
    obtain evs where "tr3 = (tr @ [?u]) @ evs"
      using waitUntil_trace [of env "?f2\<lparr>writeBuffer := None\<rparr>" "tr @ [?u]"] c3 by auto
    then show ?thesis
      using assms None c3
      by (auto simp: Close_def Close_tempFile_def Close_writeBuffer_def Close_deferred_def Let_def
               split: outcome.splits)
  qed
qed

lemma Close_success_clears:
  assumes "fst (Close env f tr) = Return None"
  shows "writeBuffer (fst (snd (Close env f tr))) = None \<and> tempFile (fst (snd (Close env f tr))) = None"
proof -
  obtain e1 f1 tr1 where c1: "Close_tempFile env f tr = (e1, f1, tr1)" by (cases "Close_tempFile env f tr")
  obtain e2 f2 tr2 where c2: "Close_writeBuffer env f1 tr1 = (e2, f2, tr2)" by (cases "Close_writeBuffer env f1 tr1")
  obtain r3 tr3 where c3: "waitUntilFileExists env (S3File (f2\<lparr>writeBuffer := None\<rparr>)) 5 tr2 = (r3, tr3)"
    by (cases "waitUntilFileExists env (S3File (f2\<lparr>writeBuffer := None\<rparr>)) 5 tr2")
  have e1: "e1 = None"
    using assms c1 Close_deferred_result [of env "tempFile f" False "[the e1]" f1 tr1]
    by (cases e1) (auto simp: Close_def)
  have e2: "e2 = None"
    using assms c1 c2 e1 Close_deferred_result [of env "tempFile f" False "[the e2]" f2 tr2]
    by (cases e2) (auto simp: Close_def)
  have t1: "tempFile f1 = None"
    using c1 e1 by (auto simp: Close_tempFile_def Let_def split: option.splits if_splits)
  have t2: "tempFile f2 = None"
    using c2 t1 by (auto simp: Close_writeBuffer_def Let_def split: option.splits)
  show ?thesis
    using c1 c2 c3 e1 e2 t2
    by (auto simp: Close_def Let_def Close_deferred_def split: outcome.splits option.splits)
qed

lemma Close_tempFile_buffer: "writeBuffer (fst (snd (Close_tempFile env f tr))) = writeBuffer f"
  by (simp add: Close_tempFile_def Let_def split: option.splits)

lemma Close_deferred_buffer:
  "writeBuffer (fst (snd (Close_deferred env entry p errs f tr))) = writeBuffer f"
  by (simp add: Close_deferred_def Let_def split: option.splits)

lemma Close_writeBuffer_buffer:
  "(writeBuffer (fst (snd (Close_writeBuffer env f tr))) = None) = (writeBuffer f = None)"
  by (simp add: Close_writeBuffer_def Let_def split: option.splits)

lemma Close_buffer_cleared_iff:
  "(writeBuffer (fst (snd (Close env f tr))) = None) = (writeBuffer f = None \<or> pastCommit env f tr)"
proof -
  obtain e1 f1 tr1 where c1: "Close_tempFile env f tr = (e1, f1, tr1)" by (cases "Close_tempFile env f tr")
  obtain e2 f2 tr2 where c2: "Close_writeBuffer env f1 tr1 = (e2, f2, tr2)" by (cases "Close_writeBuffer env f1 tr1")
  obtain r3 tr3 where c3: "waitUntilFileExists env (S3File (f2\<lparr>writeBuffer := None\<rparr>)) 5 tr2 = (r3, tr3)"
    by (cases "waitUntilFileExists env (S3File (f2\<lparr>writeBuffer := None\<rparr>)) 5 tr2")
  have b1: "writeBuffer f1 = writeBuffer f" using Close_tempFile_buffer [of env f tr] c1 by simp
  have b2: "(writeBuffer f2 = None) = (writeBuffer f1 = None)"
    using Close_writeBuffer_buffer [of env f1 tr1] c2 by simp
  show ?thesis
  proof (cases e1)
    case (Some err)
    then show ?thesis using c1 b1 by (simp add: Close_def pastCommit_def Close_deferred_buffer)
  next
    case None
    note n1 = this
    show ?thesis
    proof (cases e2)
      case (Some err)
      then show ?thesis
        using c1 c2 n1 b1 b2 by (simp add: Close_def pastCommit_def Close_deferred_buffer)
    next
      case None
      then show ?thesis
        using c1 c2 c3 n1
        by (cases r3) (simp_all add: Close_def pastCommit_def Close_deferred_buffer Let_def)
    qed
  qed
qed

text \<open>
  C3, amended: Close clears the buffer reference only when it gets past the commit: the
  reference is nil after Close exactly when there was no buffer or neither the removal of
  the mirror's storage nor the upload has failed, and whenever Close returns success the
  reference is nil.  When, on a File with a buffer and no mirror, the upload fails, Close
  returns the aggregate holding that error, and the reference stays non-nil: the buffer
  holds what the uploader had not consumed, and a retried Close begins with another
  upload of it.  When the upload succeeds the reference is nil afterwards.
\<close>

theorem Close_buffer_after_commit:
  "(fst (Close env g tr) = Return None \<longrightarrow> writeBuffer (fst (snd (Close env g tr))) = None)
   \<and> (tempFile f = None \<and> writeBuffer f = Some buf
        \<and> Upload env (tr @ [EvUpload (bucket f) (key f) ''AES256'' buf]) = Some e \<longrightarrow>
        Close env f tr =
          (Return (Some (MultiErr [e])),
           f\<lparr>writeBuffer := Some (drop (UploadRead env (tr @ [EvUpload (bucket f) (key f) ''AES256'' buf])) buf)\<rparr>,
           tr @ [EvUpload (bucket f) (key f) ''AES256'' buf])
        \<and> (\<exists>evs. snd (snd (Close env (fst (snd (Close env f tr))) (snd (snd (Close env f tr)))))
               = snd (snd (Close env f tr))
                 @ EvUpload (bucket f) (key f) ''AES256''
                     (drop (UploadRead env (tr @ [EvUpload (bucket f) (key f) ''AES256'' buf])) buf) # evs))
   \<and> (tempFile f = None \<and> writeBuffer f = Some buf
        \<and> Upload env (tr @ [EvUpload (bucket f) (key f) ''AES256'' buf]) = None \<longrightarrow>
        writeBuffer (fst (snd (Close env f tr))) = None)
   \<and> ((writeBuffer (fst (snd (Close env g tr))) = None) = (writeBuffer g = None \<or> pastCommit env g tr))"
proof -
  have g: "(writeBuffer (fst (snd (Close env g tr))) = None) = (writeBuffer g = None \<or> pastCommit env g tr)"
    by (rule Close_buffer_cleared_iff)
  let ?u = "EvUpload (bucket f) (key f) ''AES256'' buf"
  let ?rest = "drop (UploadRead env (tr @ [?u])) buf"
  have a: "fst (Close env g tr) = Return None \<longrightarrow> writeBuffer (fst (snd (Close env g tr))) = None"
    using Close_success_clears by blast
  have b: "tempFile f = None \<and> writeBuffer f = Some buf \<and> Upload env (tr @ [?u]) = Some e \<longrightarrow>
        Close env f tr = (Return (Some (MultiErr [e])), f\<lparr>writeBuffer := Some ?rest\<rparr>, tr @ [?u])"
    using Close_commit_fails by blast
  have c: "tempFile f = None \<and> writeBuffer f = Some buf \<and> Upload env (tr @ [?u]) = Some e \<longrightarrow>
        (\<exists>evs. snd (snd (Close env (fst (snd (Close env f tr))) (snd (snd (Close env f tr)))))
               = snd (snd (Close env f tr)) @ EvUpload (bucket f) (key f) ''AES256'' ?rest # evs)"
  proof
    assume h: "tempFile f = None \<and> writeBuffer f = Some buf \<and> Upload env (tr @ [?u]) = Some e"
    then have cl: "Close env f tr = (Return (Some (MultiErr [e])), f\<lparr>writeBuffer := Some ?rest\<rparr>, tr @ [?u])"
      using b by blast
    have "tempFile (f\<lparr>writeBuffer := Some ?rest\<rparr>) = None" "writeBuffer (f\<lparr>writeBuffer := Some ?rest\<rparr>) = Some ?rest"
      using h by simp_all
    from Close_writeBuffer_first_event [OF this, of env "tr @ [?u]"]
    show "\<exists>evs. snd (snd (Close env (fst (snd (Close env f tr))) (snd (snd (Close env f tr)))))
               = snd (snd (Close env f tr)) @ EvUpload (bucket f) (key f) ''AES256'' ?rest # evs"
      using cl by simp
  qed
  have d: "tempFile f = None \<and> writeBuffer f = Some buf \<and> Upload env (tr @ [?u]) = None \<longrightarrow>
        writeBuffer (fst (snd (Close env f tr))) = None"
    by (auto simp: Close_def Close_tempFile_def Close_writeBuffer_def Close_deferred_def Let_def
             split: outcome.splits prod.splits)
  from a b c d g show ?thesis by blast
qed

text \<open>
  C3, as stated, at a failing upload: the claim says that the buffer reference is nil
  after Close; it is not, and a second Close issues a second upload.
\<close>

theorem Close_commit_failure_counterexample:
  "Close uploadFails bufferedFile []
     = (Return (Some (MultiErr [AwsError ''InternalError'' ''We encountered an internal error''])),
        bufferedFile\<lparr>writeBuffer := Some []\<rparr>,
        [EvUpload ''docs'' ''a/b/report.txt'' ''AES256'' [104, 105]])
   \<and> writeBuffer (bufferedFile\<lparr>writeBuffer := Some []\<rparr>) \<noteq> None
   \<and> snd (snd (Close uploadFails (bufferedFile\<lparr>writeBuffer := Some []\<rparr>)
                [EvUpload ''docs'' ''a/b/report.txt'' ''AES256'' [104, 105]]))
     = [EvUpload ''docs'' ''a/b/report.txt'' ''AES256'' [104, 105],
        EvUpload ''docs'' ''a/b/report.txt'' ''AES256'' []]"
  by (simp add: Close_def Close_tempFile_def Close_writeBuffer_def Close_deferred_def OrNil_def Let_def
        bufferedFile_def sampleFile_def quietEnv_def uploadFails_def)

theorem Close_buffer_after_commit_witness:
  "writeBuffer (fst (snd (Close quietEnv bufferedFile []))) = None
   \<and> Close uploadFails bufferedFile []
     = (Return (Some (MultiErr [AwsError ''InternalError'' ''We encountered an internal error''])),
        bufferedFile\<lparr>writeBuffer := Some []\<rparr>,
        [EvUpload ''docs'' ''a/b/report.txt'' ''AES256'' [104, 105]])"
proof -
  let ?u = "EvUpload (bucket bufferedFile) (key bufferedFile) ''AES256'' [104, 105]"
  let ?e = "AwsError ''InternalError'' ''We encountered an internal error''"
  have f: "tempFile bufferedFile = None \<and> writeBuffer bufferedFile = Some [104, 105]"
    by (simp add: bufferedFile_def sampleFile_def)
  have ok: "Upload quietEnv ([] @ [?u]) = None" by (simp add: quietEnv_def)
  have bad: "Upload uploadFails ([] @ [?u]) = Some ?e" by (simp add: uploadFails_def)
  have rd: "UploadRead uploadFails ([] @ [?u]) = 2" by (simp add: uploadFails_def quietEnv_def)
  have "writeBuffer (fst (snd (Close quietEnv bufferedFile []))) = None"
    using Close_buffer_after_commit [of quietEnv bufferedFile "[]" bufferedFile "[104, 105]" ?e] f ok
    by blast
  moreover have "Close uploadFails bufferedFile [] =
      (Return (Some (MultiErr [?e])),
       bufferedFile\<lparr>writeBuffer := Some (drop (UploadRead uploadFails ([] @ [?u])) [104, 105])\<rparr>,
       [] @ [?u])"
    using Close_buffer_after_commit [of uploadFails bufferedFile "[]" bufferedFile "[104, 105]" ?e] f bad
    by blast
  ultimately show ?thesis using rd by (simp add: bufferedFile_def sampleFile_def)
qed

lemma Close_removal_fails:
  assumes "tempFile f = Some t"
    and "Remove env (tr @ [EvRemove (tname t)]) = Some e" and "\<not> IsNotExist e"
  shows "Close env f tr =
           (Return (Some (MultiErr (DeferFunc [e] (CloseTemp env (tr @ [EvRemove (tname t), EvCloseTemp (tname t)]))))),
            f\<lparr>tempFile := Some (t\<lparr>tclosed := True\<rparr>)\<rparr>,
            tr @ [EvRemove (tname t), EvCloseTemp (tname t)])"
  using assms
  by (simp add: Close_def Close_tempFile_def Close_deferred_def OrNil_def DeferFunc_def Let_def
           split: option.splits)

lemma Close_tempFile_ok:
  assumes "tempFile f = Some t" and "removalOk env (tr @ [EvRemove (tname t)])"
  shows "Close_tempFile env f tr = (None, f\<lparr>tempFile := None\<rparr>, tr @ [EvRemove (tname t)])"
  using assms by (auto simp: Close_tempFile_def removalOk_def Let_def split: option.splits)

lemma Close_mirror_commit_fails:
  assumes "tempFile f = Some t" and "writeBuffer f = Some buf"
    and "removalOk env (tr @ [EvRemove (tname t)])"
    and "Upload env (tr @ [EvRemove (tname t), EvUpload (bucket f) (key f) ''AES256'' buf]) = Some ue"
  shows "Close env f tr =
           (Return (Some (MultiErr (DeferFunc [ue]
              (CloseTemp env (tr @ [EvRemove (tname t), EvUpload (bucket f) (key f) ''AES256'' buf,
                                   EvCloseTemp (tname t)]))))),
            f\<lparr>tempFile := None,
              writeBuffer := Some (drop (UploadRead env
                 (tr @ [EvRemove (tname t), EvUpload (bucket f) (key f) ''AES256'' buf])) buf)\<rparr>,
            tr @ [EvRemove (tname t), EvUpload (bucket f) (key f) ''AES256'' buf, EvCloseTemp (tname t)])"
  using assms
  by (simp add: Close_def Close_tempFile_ok Close_writeBuffer_def Close_deferred_def OrNil_def
        DeferFunc_def Let_def split: option.splits)

lemma Close_mirror_commit_ok:
  assumes "tempFile f = Some t" and "writeBuffer f = Some buf"
    and "removalOk env (tr @ [EvRemove (tname t)])"
    and "Upload env (tr @ [EvRemove (tname t), EvUpload (bucket f) (key f) ''AES256'' buf]) = None"
    and "waitUntilFileExists env (S3File (f\<lparr>tempFile := None, writeBuffer := None\<rparr>)) 5
           (tr @ [EvRemove (tname t), EvUpload (bucket f) (key f) ''AES256'' buf]) = (Return None, tr3)"
  shows "Close env f tr =
           (Return (OrNil (DeferFunc [] (CloseTemp env (tr3 @ [EvCloseTemp (tname t)])))),
            f\<lparr>tempFile := None, writeBuffer := None\<rparr>,
            tr3 @ [EvCloseTemp (tname t)])"
  using assms
  by (simp add: Close_def Close_tempFile_ok Close_writeBuffer_def Close_deferred_def Let_def)

lemma Close_mirror_last:
  assumes "tempFile f = Some t"
  shows "last (snd (snd (Close env f tr))) = EvCloseTemp (tname t)"
  using assms
  by (auto simp: Close_def Close_deferred_def Let_def split: prod.splits option.splits outcome.splits)

text \<open>
  C4, amended: on a File with both a mirror and a write buffer, closing the mirror's
  handle is always attempted, last, and its failure is aggregated after any earlier
  one.  A failure of the removal of the temporary storage, other than does-not-exist,
  ends Close before the commit: no upload is attempted and the mirror and buffer
  references stay.  A failure of the commit ends Close before the poll.  Close returns
  the aggregate of the appended failures, and nothing when the removal, the commit, the
  poll and the closing of the handle all succeed.
\<close>

theorem Close_mirror_and_buffer:
  "tempFile f = Some t \<and> writeBuffer f = Some buf \<longrightarrow>
     last (snd (snd (Close env f tr))) = EvCloseTemp (tname t)
     \<and> (\<forall>e. Remove env (tr @ [EvRemove (tname t)]) = Some e \<and> \<not> IsNotExist e \<longrightarrow>
          Close env f tr =
            (Return (Some (MultiErr (DeferFunc [e]
               (CloseTemp env (tr @ [EvRemove (tname t), EvCloseTemp (tname t)]))))),
             f\<lparr>tempFile := Some (t\<lparr>tclosed := True\<rparr>)\<rparr>,
             tr @ [EvRemove (tname t), EvCloseTemp (tname t)]))
     \<and> (\<forall>ue. removalOk env (tr @ [EvRemove (tname t)])
            \<and> Upload env (tr @ [EvRemove (tname t), EvUpload (bucket f) (key f) ''AES256'' buf]) = Some ue \<longrightarrow>
          Close env f tr =
            (Return (Some (MultiErr (DeferFunc [ue]
               (CloseTemp env (tr @ [EvRemove (tname t), EvUpload (bucket f) (key f) ''AES256'' buf,
                                    EvCloseTemp (tname t)]))))),
             f\<lparr>tempFile := None,
               writeBuffer := Some (drop (UploadRead env
                  (tr @ [EvRemove (tname t), EvUpload (bucket f) (key f) ''AES256'' buf])) buf)\<rparr>,
             tr @ [EvRemove (tname t), EvUpload (bucket f) (key f) ''AES256'' buf, EvCloseTemp (tname t)]))
     \<and> (\<forall>tr3. removalOk env (tr @ [EvRemove (tname t)])
            \<and> Upload env (tr @ [EvRemove (tname t), EvUpload (bucket f) (key f) ''AES256'' buf]) = None
            \<and> waitUntilFileExists env (S3File (f\<lparr>tempFile := None, writeBuffer := None\<rparr>)) 5
                 (tr @ [EvRemove (tname t), EvUpload (bucket f) (key f) ''AES256'' buf]) = (Return None, tr3) \<longrightarrow>
          Close env f tr =
            (Return (OrNil (DeferFunc [] (CloseTemp env (tr3 @ [EvCloseTemp (tname t)])))),
             f\<lparr>tempFile := None, writeBuffer := None\<rparr>,
             tr3 @ [EvCloseTemp (tname t)]))"
  using Close_mirror_last [of f t env tr] Close_removal_fails [of f t env tr]
    Close_mirror_commit_fails [of f t buf env tr] Close_mirror_commit_ok [of f t buf env tr]
  by blast

text \<open>
  C4, as stated, at a failing removal of the temporary storage: the claim says that the
  commit is attempted all the same; no upload is made and the buffer is left pending.
\<close>

theorem Close_removal_failure_counterexample:
  "Close removeFails mirroredFile []
     = (Return (Some (MultiErr [OsError False ''permission denied''])),
        mirroredFile\<lparr>tempFile := Some (mirror\<lparr>tclosed := True\<rparr>)\<rparr>,
        [EvRemove ''/tmp/report.txt.1'', EvCloseTemp ''/tmp/report.txt.1''])
   \<and> writeBuffer (mirroredFile\<lparr>tempFile := Some (mirror\<lparr>tclosed := True\<rparr>)\<rparr>) = Some [104, 105]"
  by (simp add: Close_def Close_tempFile_def Close_deferred_def OrNil_def DeferFunc_def Let_def
        mirroredFile_def mirror_def sampleFile_def quietEnv_def removeFails_def)

theorem Close_mirror_and_buffer_witness:
  "Close removeFails mirroredFile []
     = (Return (Some (MultiErr [OsError False ''permission denied''])),
        mirroredFile\<lparr>tempFile := Some (mirror\<lparr>tclosed := True\<rparr>)\<rparr>,
        [EvRemove ''/tmp/report.txt.1'', EvCloseTemp ''/tmp/report.txt.1''])
   \<and> Close uploadFails mirroredFile []
     = (Return (Some (MultiErr [AwsError ''InternalError'' ''We encountered an internal error''])),
        mirroredFile\<lparr>tempFile := None, writeBuffer := Some []\<rparr>,
        [EvRemove ''/tmp/report.txt.1'', EvUpload ''docs'' ''a/b/report.txt'' ''AES256'' [104, 105],
         EvCloseTemp ''/tmp/report.txt.1''])
   \<and> Close quietEnv mirroredFile []
     = (Return None, mirroredFile\<lparr>tempFile := None, writeBuffer := None\<rparr>,
        [EvRemove ''/tmp/report.txt.1'', EvUpload ''docs'' ''a/b/report.txt'' ''AES256'' [104, 105],
         EvHeadObject ''docs'' ''a/b/report.txt'', EvCloseTemp ''/tmp/report.txt.1''])
   \<and> last (snd (snd (Close quietEnv mirroredFile []))) = EvCloseTemp ''/tmp/report.txt.1''"
proof -
  let ?rm = "EvRemove (tname mirror)"
  let ?up = "EvUpload (bucket mirroredFile) (key mirroredFile) ''AES256'' [104, 105]"
  let ?cl = "EvCloseTemp (tname mirror)"
  let ?hd = "EvHeadObject ''docs'' ''a/b/report.txt''"
  let ?pe = "OsError False ''permission denied''"
  let ?ue = "AwsError ''InternalError'' ''We encountered an internal error''"
  have f: "tempFile mirroredFile = Some mirror \<and> writeBuffer mirroredFile = Some [104, 105]"
    by (simp add: mirroredFile_def sampleFile_def)
  have nm: "tname mirror = ''/tmp/report.txt.1''" by (simp add: mirror_def)
  have bk: "bucket mirroredFile = ''docs''" "key mirroredFile = ''a/b/report.txt''"
    by (simp_all add: mirroredFile_def sampleFile_def)
  have a: "Remove removeFails ([] @ [?rm]) = Some ?pe \<and> \<not> IsNotExist ?pe"
    by (simp add: removeFails_def)
  have a': "DeferFunc [?pe] (CloseTemp removeFails ([] @ [?rm, ?cl])) = [?pe]"
    by (simp add: removeFails_def quietEnv_def DeferFunc_def)
  have b: "removalOk uploadFails ([] @ [?rm]) \<and> Upload uploadFails ([] @ [?rm, ?up]) = Some ?ue"
    by (simp add: uploadFails_def quietEnv_def removalOk_def)
  have b': "DeferFunc [?ue] (CloseTemp uploadFails ([] @ [?rm, ?up, ?cl])) = [?ue]"
       "UploadRead uploadFails ([] @ [?rm, ?up]) = 2"
    by (simp_all add: uploadFails_def quietEnv_def DeferFunc_def)
  have c: "removalOk quietEnv ([] @ [?rm]) \<and> Upload quietEnv ([] @ [?rm, ?up]) = None
      \<and> waitUntilFileExists quietEnv (S3File (mirroredFile\<lparr>tempFile := None, writeBuffer := None\<rparr>)) 5
           ([] @ [?rm, ?up]) = (Return None, [?rm, ?up, ?hd])"
    using waitUntil_found [OF quiet_head, of "mirroredFile\<lparr>tempFile := None, writeBuffer := None\<rparr>" "[?rm, ?up]"]
    by (simp add: quietEnv_def removalOk_def bk)
  have c': "OrNil (DeferFunc [] (CloseTemp quietEnv ([?rm, ?up, ?hd] @ [?cl]))) = None"
    by (simp add: quietEnv_def DeferFunc_def OrNil_def)
  have r1: "Close removeFails mirroredFile [] =
      (Return (Some (MultiErr (DeferFunc [?pe] (CloseTemp removeFails ([] @ [?rm, ?cl]))))),
       mirroredFile\<lparr>tempFile := Some (mirror\<lparr>tclosed := True\<rparr>)\<rparr>, [] @ [?rm, ?cl])"
    using Close_mirror_and_buffer [of mirroredFile mirror "[104, 105]" removeFails "[]"] f a by blast
  have r2: "Close uploadFails mirroredFile [] =
      (Return (Some (MultiErr (DeferFunc [?ue] (CloseTemp uploadFails ([] @ [?rm, ?up, ?cl]))))),
       mirroredFile\<lparr>tempFile := None,
          writeBuffer := Some (drop (UploadRead uploadFails ([] @ [?rm, ?up])) [104, 105])\<rparr>,
       [] @ [?rm, ?up, ?cl])"
    using Close_mirror_and_buffer [of mirroredFile mirror "[104, 105]" uploadFails "[]"] f b by blast
  have r3: "Close quietEnv mirroredFile [] =
      (Return (OrNil (DeferFunc [] (CloseTemp quietEnv ([?rm, ?up, ?hd] @ [?cl])))),
       mirroredFile\<lparr>tempFile := None, writeBuffer := None\<rparr>, [?rm, ?up, ?hd] @ [?cl])"
    using Close_mirror_and_buffer [of mirroredFile mirror "[104, 105]" quietEnv "[]"] f c by blast
  have r4: "last (snd (snd (Close quietEnv mirroredFile []))) = ?cl"
    using Close_mirror_and_buffer [of mirroredFile mirror "[104, 105]" quietEnv "[]"] f by blast
  show ?thesis
    using r1 r2 r3 r4 a' b' c' nm bk by simp
qed

section \<open>Write\<close>

lemma Write_eq:
  "Write f data =
     ((length data, None),
      f\<lparr>writeBuffer := Some ((case writeBuffer f of None \<Rightarrow> [] | Some b \<Rightarrow> b) @ data)\<rparr>)"
  by (simp add: Write_def Let_def split: option.splits)

lemma writeAll_buffer:
  "writeBuffer (writeAll f ds) =
     (if ds = [] then writeBuffer f
      else Some ((case writeBuffer f of None \<Rightarrow> [] | Some b \<Rightarrow> b) @ concat ds))"
  by (induction ds arbitrary: f) (auto simp: Write_eq split: option.splits)

lemma writeAll_fields:
  "tempFile (writeAll f ds) = tempFile f \<and> bucket (writeAll f ds) = bucket f
   \<and> key (writeAll f ds) = key f \<and> fileSystem (writeAll f ds) = fileSystem f"
  by (induction ds arbitrary: f) (auto simp: Write_eq)

lemma Close_buffer_trace:
  assumes "tempFile f = None" and "writeBuffer f = Some buf"
  shows "\<exists>evs. snd (snd (Close env f tr)) = tr @ EvUpload (bucket f) (key f) ''AES256'' buf # evs
           \<and> set evs \<subseteq> pollEvents f"
proof -
  let ?u = "EvUpload (bucket f) (key f) ''AES256'' buf"
  let ?f2 = "f\<lparr>writeBuffer := Some (drop (UploadRead env (tr @ [?u])) buf)\<rparr>"
  show ?thesis
  proof (cases "Upload env (tr @ [?u])")
    case (Some e)
    then show ?thesis using Close_commit_fails [OF assms, of env tr e] by simp
  next
    case None
    obtain r3 tr3 where c3: "waitUntilFileExists env (S3File (?f2\<lparr>writeBuffer := None\<rparr>)) 5 (tr @ [?u]) = (r3, tr3)"
      by (cases "waitUntilFileExists env (S3File (?f2\<lparr>writeBuffer := None\<rparr>)) 5 (tr @ [?u])")
    obtain evs where "tr3 = (tr @ [?u]) @ evs" "set evs \<subseteq> pollEvents (?f2\<lparr>writeBuffer := None\<rparr>)"
      using waitUntil_trace [of env "?f2\<lparr>writeBuffer := None\<rparr>" "tr @ [?u]"] c3 by auto
    then show ?thesis
      using assms None c3
      by (auto simp: Close_def Close_tempFile_def Close_writeBuffer_def Close_deferred_def Let_def
               pollEvents_def split: outcome.splits)
  qed
qed

text \<open>
  C8: Write returns \<open>len(data)\<close> and a nil error and appends the data to the buffer,
  which it creates empty when there is none, so that after the first Write the buffer
  holds the data once.  Write reaches no client: after a run of Writes on a fresh File
  the buffer holds their concatenation, and the bytes reach the store at Close, in one
  upload that carries all of them.
\<close>

theorem Write_buffers_until_Close:
  "Write f data =
     ((length data, None),
      f\<lparr>writeBuffer := Some ((case writeBuffer f of None \<Rightarrow> [] | Some b \<Rightarrow> b) @ data)\<rparr>)
   \<and> (writeBuffer f = None \<longrightarrow> writeBuffer (snd (Write f data)) = Some data)
   \<and> (writeBuffer f = None \<and> ds \<noteq> [] \<longrightarrow> writeBuffer (writeAll f ds) = Some (concat ds))
   \<and> (writeBuffer f = None \<and> tempFile f = None \<and> ds \<noteq> [] \<longrightarrow>
        (\<exists>evs. snd (snd (Close env (writeAll f ds) tr))
                 = tr @ EvUpload (bucket f) (key f) ''AES256'' (concat ds) # evs
               \<and> filter isUpload evs = []))"
proof -
  have a: "writeBuffer f = None \<longrightarrow> writeBuffer (snd (Write f data)) = Some data"
    by (simp add: Write_eq)
  have b: "writeBuffer f = None \<and> ds \<noteq> [] \<longrightarrow> writeBuffer (writeAll f ds) = Some (concat ds)"
    by (simp add: writeAll_buffer)
  have c: "writeBuffer f = None \<and> tempFile f = None \<and> ds \<noteq> [] \<longrightarrow>
        (\<exists>evs. snd (snd (Close env (writeAll f ds) tr))
                 = tr @ EvUpload (bucket f) (key f) ''AES256'' (concat ds) # evs
               \<and> filter isUpload evs = [])"
  proof
    assume h: "writeBuffer f = None \<and> tempFile f = None \<and> ds \<noteq> []"
    then have "tempFile (writeAll f ds) = None" "writeBuffer (writeAll f ds) = Some (concat ds)"
      by (simp_all add: writeAll_fields writeAll_buffer)
    from Close_buffer_trace [OF this, of env tr]
    obtain evs where e: "snd (snd (Close env (writeAll f ds) tr))
         = tr @ EvUpload (bucket f) (key f) ''AES256'' (concat ds) # evs"
        "set evs \<subseteq> pollEvents (writeAll f ds)"
      by (auto simp: writeAll_fields)
    have "filter isUpload evs = []"
      using e(2) by (auto simp: filter_empty_conv pollEvents_def isUpload_def)
    with e(1) show "\<exists>evs. snd (snd (Close env (writeAll f ds) tr))
                 = tr @ EvUpload (bucket f) (key f) ''AES256'' (concat ds) # evs
               \<and> filter isUpload evs = []"
      by blast
  qed
  from Write_eq [of f data] a b c show ?thesis by blast
qed

theorem Write_buffers_until_Close_witness:
  "writeBuffer (snd (Write sampleFile [104, 105])) = Some [104, 105]
   \<and> writeBuffer (writeAll sampleFile [[104], [105, 33]]) = Some [104, 105, 33]
   \<and> (\<exists>evs. snd (snd (Close quietEnv (writeAll sampleFile [[104], [105, 33]]) []))
              = [] @ EvUpload ''docs'' ''a/b/report.txt'' ''AES256'' [104, 105, 33] # evs
            \<and> filter isUpload evs = [])"
proof -
  have h: "writeBuffer sampleFile = None" "tempFile sampleFile = None" "[[104], [105, 33]] \<noteq> ([] :: bytes list)"
    by (simp_all add: sampleFile_def)
  have bk: "bucket sampleFile = ''docs''" "key sampleFile = ''a/b/report.txt''"
    by (simp_all add: sampleFile_def)
  have "writeBuffer (snd (Write sampleFile [104, 105])) = Some [104, 105]"
    using Write_buffers_until_Close [of sampleFile "[104, 105]" "[[104], [105, 33]]" quietEnv "[]"] h by blast
  moreover have "writeBuffer (writeAll sampleFile [[104], [105, 33]]) = Some (concat [[104], [105, 33]])"
    using Write_buffers_until_Close [of sampleFile "[104, 105]" "[[104], [105, 33]]" quietEnv "[]"] h by blast
  moreover have "\<exists>evs. snd (snd (Close quietEnv (writeAll sampleFile [[104], [105, 33]]) []))
              = [] @ EvUpload (bucket sampleFile) (key sampleFile) ''AES256'' (concat [[104], [105, 33]]) # evs
            \<and> filter isUpload evs = []"
    using Write_buffers_until_Close [of sampleFile "[104, 105]" "[[104], [105, 33]]" quietEnv "[]"] h by blast
  ultimately show ?thesis using bk by simp
qed

section \<open>Construction and identity\<close>

lemma identity_updates [simp]:
  "identity (f\<lparr>tempFile := t\<rparr>) = identity f"
  "identity (f\<lparr>writeBuffer := b\<rparr>) = identity f"
  by (simp_all add: identity_def)

lemma CleanPrefix_shape:
  "(\<exists>n. k = replicate n (CHR ''/'') @ CleanPrefix k) \<and> (\<forall>r. CleanPrefix k \<noteq> CHR ''/'' # r)"
proof
  have "k = takeWhile (\<lambda>c. c = CHR ''/'') k @ dropWhile (\<lambda>c. c = CHR ''/'') k" by simp
  moreover have "takeWhile (\<lambda>c. c = CHR ''/'') k = replicate (length (takeWhile (\<lambda>c. c = CHR ''/'') k)) (CHR ''/'')"
    by (induction k) auto
  ultimately show "\<exists>n. k = replicate n (CHR ''/'') @ CleanPrefix k"
    unfolding CleanPrefix_def by metis
  show "\<forall>r. CleanPrefix k \<noteq> CHR ''/'' # r"
    unfolding CleanPrefix_def
    by (metis (mono_tags, lifting) dropWhile_eq_Cons_conv)
qed

lemma Write_identity: "identity (snd (Write f data)) = identity f"
  by (simp add: Write_def Let_def split: option.splits)

lemma checkTempFile_identity: "identity (fst (snd (checkTempFile env f tr))) = identity f"
  by (simp add: checkTempFile_def split: option.splits prod.splits sum.splits)

lemma Read_identity: "identity (fst (snd (Read env f n tr))) = identity f"
  using checkTempFile_identity [of env f tr]
  by (auto simp: Read_def split: option.splits prod.splits)

lemma Seek_identity: "identity (fst (snd (Seek env f offset whence tr))) = identity f"
  using checkTempFile_identity [of env f tr]
  by (auto simp: Seek_def split: option.splits prod.splits)

lemma Close_tempFile_identity: "identity (fst (snd (Close_tempFile env f tr))) = identity f"
  by (simp add: Close_tempFile_def Let_def split: option.splits)

lemma Close_writeBuffer_identity: "identity (fst (snd (Close_writeBuffer env f tr))) = identity f"
  by (simp add: Close_writeBuffer_def Let_def split: option.splits)

lemma Close_deferred_identity: "identity (fst (snd (Close_deferred env entry p errs f tr))) = identity f"
  by (simp add: Close_deferred_def Let_def split: option.splits)

lemma Close_identity: "identity (fst (snd (Close env f tr))) = identity f"
proof -
  obtain e1 f1 tr1 where c1: "Close_tempFile env f tr = (e1, f1, tr1)" by (cases "Close_tempFile env f tr")
  obtain e2 f2 tr2 where c2: "Close_writeBuffer env f1 tr1 = (e2, f2, tr2)" by (cases "Close_writeBuffer env f1 tr1")
  have i1: "identity f1 = identity f" using Close_tempFile_identity [of env f tr] c1 by simp
  have i2: "identity f2 = identity f1" using Close_writeBuffer_identity [of env f1 tr1] c2 by simp
  show ?thesis
    using c1 c2 i1 i2
    by (auto simp: Close_def Let_def Close_deferred_identity split: option.splits outcome.splits prod.splits)
qed

lemma Delete_identity: "identity (fst (snd (Delete env f tr))) = identity f"
  using Close_identity [of env "f\<lparr>writeBuffer := None\<rparr>" tr]
  by (auto simp: Delete_def Let_def split: prod.splits outcome.splits option.splits)

lemma ioCopy_identity: "identity (fst (snd (snd (ioCopy ops env tgt f tr)))) = identity f"
  using checkTempFile_identity [of env f tr]
  by (auto simp: ioCopy_def split: prod.splits option.splits)

lemma CopyToFile_identity: "identity (fst (snd (CopyToFile ops env f tgt tr))) = identity f"
proof (cases tgt)
  case (S3Target tf)
  then show ?thesis by (simp add: CopyToFile_def split: prod.splits)
next
  case (OtherTarget t)
  obtain e1 tg1 f1 tr1 where c1: "ioCopy ops env tgt f tr = (e1, tg1, f1, tr1)"
    by (cases "ioCopy ops env tgt f tr")
  have i1: "identity f1 = identity f" using ioCopy_identity [of ops env tgt f tr] c1 by simp
  obtain r2 tg2 tr2 where c2: "target_Close ops env tg1 tr1 = (r2, tg2, tr2)"
    by (cases "target_Close ops env tg1 tr1")
  have i2: "identity (fst (snd (Close env f1 tr2))) = identity f" using Close_identity i1 by simp
  show ?thesis
    using OtherTarget c1 c2 i1 i2
    by (auto simp: CopyToFile_def TouchCopy_def split: prod.splits option.splits outcome.splits)
qed

lemma MoveToFile_identity: "identity (fst (snd (MoveToFile ops env f tgt tr))) = identity f"
proof -
  obtain r1 f1 tg1 tr1 where c1: "CopyToFile ops env f tgt tr = (r1, f1, tg1, tr1)"
    by (cases "CopyToFile ops env f tgt tr")
  have i1: "identity f1 = identity f" using CopyToFile_identity [of ops env f tgt tr] c1 by simp
  have i2: "identity (fst (snd (Delete env f1 tr1))) = identity f" using Delete_identity i1 by simp
  show ?thesis
    using c1 i1 i2
    by (auto simp: MoveToFile_def split: prod.splits option.splits outcome.splits)
qed

lemma CopyToLocation_identity: "identity (fst (snd (CopyToLocation ops env f loc tr))) = identity f"
proof (cases "locScheme loc = Scheme")
  case True
  then show ?thesis by (simp add: CopyToLocation_def split: prod.splits)
next
  case False
  show ?thesis
  proof (cases "locNewFile loc (locVolume loc) (pathJoin env (locPath loc) (Name f))")
    case (Inl err)
    then show ?thesis using False by (simp add: CopyToLocation_def)
  next
    case (Inr nf)
    obtain e1 tg1 f1 tr1 where c1: "ioCopy ops env nf f tr = (e1, tg1, f1, tr1)"
      by (cases "ioCopy ops env nf f tr")
    have i1: "identity f1 = identity f" using ioCopy_identity [of ops env nf f tr] c1 by simp
    obtain r2 tg2 tr2 where c2: "target_Close ops env tg1 tr1 = (r2, tg2, tr2)"
      by (cases "target_Close ops env tg1 tr1")
    have i2: "identity (fst (snd (Close env f1 tr2))) = identity f" using Close_identity i1 by simp
    show ?thesis
      using False Inr c1 c2 i1 i2
      by (auto simp: CopyToLocation_def split: prod.splits option.splits outcome.splits)
  qed
qed

lemma MoveToLocation_identity: "identity (fst (snd (MoveToLocation ops env f loc tr))) = identity f"
proof -
  obtain r1 f1 tr1 where c1: "CopyToLocation ops env f loc tr = (r1, f1, tr1)"
    by (cases "CopyToLocation ops env f loc tr")
  have i1: "identity f1 = identity f" using CopyToLocation_identity [of ops env f loc tr] c1 by simp
  have i2: "identity (fst (snd (Delete env f1 tr1))) = identity f" using Delete_identity i1 by simp
  show ?thesis
    using c1 i1 i2
    by (auto simp: MoveToLocation_def split: prod.splits option.splits outcome.splits sum.splits)
qed

text \<open>
  C9: construction fails exactly when the file-system pointer is nil or the bucket or
  the key is the empty string.  On success the File holds the pointer and the bucket as
  given and the key with its leading separators stripped, and neither a mirror nor a
  buffer; construction takes and returns no trace of calls.  No operation of the File
  changes its identity fields.
\<close>

theorem newFile_validates:
  "((\<exists>err. newFile fs bkt k = Inl err) = (fs = None \<or> bkt = [] \<or> k = []))
   \<and> (\<forall>f. newFile fs bkt k = Inr f \<longrightarrow>
         fs = Some (fileSystem f) \<and> bucket f = bkt \<and> key f = CleanPrefix k
         \<and> (\<exists>n. k = replicate n (CHR ''/'') @ key f) \<and> (\<forall>r. key f \<noteq> CHR ''/'' # r)
         \<and> tempFile f = None \<and> writeBuffer f = None)
   \<and> identity (snd (Write g data)) = identity g
   \<and> identity (fst (snd (Read env g n tr))) = identity g
   \<and> identity (fst (snd (Seek env g offset whence tr))) = identity g
   \<and> identity (fst (snd (Close env g tr))) = identity g
   \<and> identity (fst (snd (Delete env g tr))) = identity g
   \<and> identity (fst (snd (CopyToFile ops env g tgt tr))) = identity g
   \<and> identity (fst (snd (MoveToFile ops env g tgt tr))) = identity g
   \<and> identity (fst (snd (CopyToLocation ops env g loc tr))) = identity g
   \<and> identity (fst (snd (MoveToLocation ops env g loc tr))) = identity g"
proof -
  have a: "(\<exists>err. newFile fs bkt k = Inl err) = (fs = None \<or> bkt = [] \<or> k = [])"
    by (auto simp: newFile_def split: option.splits)
  have b: "\<forall>f. newFile fs bkt k = Inr f \<longrightarrow>
         fs = Some (fileSystem f) \<and> bucket f = bkt \<and> key f = CleanPrefix k
         \<and> (\<exists>n. k = replicate n (CHR ''/'') @ key f) \<and> (\<forall>r. key f \<noteq> CHR ''/'' # r)
         \<and> tempFile f = None \<and> writeBuffer f = None"
    using CleanPrefix_shape [of k]
    by (auto simp: newFile_def split: option.splits if_splits)
  show ?thesis
    by (intro conjI a b Write_identity Read_identity Seek_identity Close_identity Delete_identity
          CopyToFile_identity MoveToFile_identity CopyToLocation_identity MoveToLocation_identity)
qed

theorem newFile_validates_witness:
  "newFile (Some 1) ''docs'' ''//a/b/report.txt'' = Inr sampleFile
   \<and> (\<exists>err. newFile None ''docs'' ''a'' = Inl err)
   \<and> (\<exists>err. newFile (Some 1) '''' ''a'' = Inl err)
   \<and> (\<exists>err. newFile (Some 1) ''docs'' '''' = Inl err)
   \<and> (\<exists>n. ''//a/b/report.txt'' = replicate n (CHR ''/'') @ key sampleFile)"
proof -
  have ok: "newFile (Some 1) ''docs'' ''//a/b/report.txt'' = Inr sampleFile"
    by (simp add: newFile_def CleanPrefix_def sampleFile_def)
  have "\<exists>n. ''//a/b/report.txt'' = replicate n (CHR ''/'') @ key sampleFile"
    using newFile_validates [of "Some 1" "''docs''" "''//a/b/report.txt''"] ok by blast
  moreover have "\<exists>err. newFile None ''docs'' ''a'' = Inl err"
    using newFile_validates [of None "''docs''" "''a''"] by blast
  moreover have "\<exists>err. newFile (Some 1) '''' ''a'' = Inl err"
    using newFile_validates [of "Some 1" "''''" "''a''"] by blast
  moreover have "\<exists>err. newFile (Some 1) ''docs'' '''' = Inl err"
    using newFile_validates [of "Some 1" "''docs''" "''''"] by blast
  ultimately show ?thesis using ok by blast
qed

section \<open>The read path\<close>

lemma checkTempFile_mirror: "tempFile f = Some t \<Longrightarrow> checkTempFile env f tr = (None, f, tr)"
  by (simp add: checkTempFile_def)

lemma Read_mirror:
  "tempFile f = Some t \<Longrightarrow>
   Read env f n tr = (fst (temp_Read t n), f\<lparr>tempFile := Some (snd (temp_Read t n))\<rparr>, tr)"
  by (simp add: Read_def checkTempFile_mirror split: prod.splits)



lemma checkTempFile_materialises:
  assumes "tempFile f = None" and "materialised env f tr nm body"
  shows "checkTempFile env f tr =
           (None, f\<lparr>tempFile := Some \<lparr>tname = nm, tdata = body, tpos = 0, tclosed = False\<rparr>\<rparr>,
            tr @ [EvTempFile (Name f), EvGetObject (bucket f) (key f), EvCopyToTemp nm, EvSeekTemp nm])"
  using assms
  by (simp add: checkTempFile_def copyToLocalTempReader_def getObject_def materialised_def Let_def)

lemma getCalls_simps [simp]:
  "getCalls (xs @ ys) = getCalls xs + getCalls ys"
  "getCalls [] = 0"
  "getCalls (EvGetObject b k # tr) = Suc (getCalls tr)"
  "getCalls (EvTempFile nm # tr) = getCalls tr"
  "getCalls (EvCopyToTemp nm # tr) = getCalls tr"
  "getCalls (EvSeekTemp nm # tr) = getCalls tr"
  by (simp_all add: getCalls_def isGet_def)








lemma Close_tempFile_error:
  "(fst (Close_tempFile env f tr) = None) = (tempFile (fst (snd (Close_tempFile env f tr))) = None)"
  by (auto simp: Close_tempFile_def Let_def split: option.splits)







lemma Read_after_failed_removal:
  assumes "tempFile f = Some t" and "Remove env (tr @ [EvRemove (tname t)]) = Some e"
    and "\<not> IsNotExist e"
  shows "Read env (fst (snd (Close env f tr))) n (snd (snd (Close env f tr)))
           = (([], Some ErrClosed), fst (snd (Close env f tr)), snd (snd (Close env f tr)))"
  using Close_removal_fails [OF assms]
  by (simp add: Read_mirror temp_Read_def)


lemma Name_sampleFile: "Name sampleFile = ''report.txt''"
  by (simp add: Name_def path_Base_def sampleFile_def)





section \<open>Move\<close>

lemma deleteCalls_simps [simp]:
  "deleteCalls [] = 0"
  "deleteCalls (EvDeleteObject b k # tr) = Suc (deleteCalls tr)"
  "deleteCalls (EvCopyObject b k src # tr) = deleteCalls tr"
  "deleteCalls (EvHeadObject b k # tr) = deleteCalls tr"
  "deleteCalls (EvTempFile nm # tr) = deleteCalls tr"
  "deleteCalls (EvGetObject b k # tr) = deleteCalls tr"
  "deleteCalls (EvCopyToTemp nm # tr) = deleteCalls tr"
  "deleteCalls (EvSeekTemp nm # tr) = deleteCalls tr"
  by (simp_all add: deleteCalls_def isDelete_def)

lemma checkTempFile_deleteCalls:
  "deleteCalls (snd (snd (checkTempFile env f tr))) = deleteCalls tr"
  by (auto simp: checkTempFile_def copyToLocalTempReader_def getObject_def Let_def
           split: option.splits sum.splits prod.splits)

lemma ioCopy_deleteCalls:
  "deleteCalls (snd (snd (snd (ioCopy ops env tgt f tr)))) = deleteCalls tr"
  using checkTempFile_deleteCalls [of env f tr]
  by (auto simp: ioCopy_def split: prod.splits option.splits)

lemma target_Close_deleteCalls:
  "deleteCalls (snd (snd (target_Close ops env tgt tr))) = deleteCalls tr"
proof (cases tgt)
  case (S3Target g)
  have "deleteCalls (snd (snd (Close env g tr))) = deleteCalls tr" by (rule Close_deleteCalls)
  then show ?thesis using S3Target by (simp add: target_Close_def case_prod_beta)
next
  case (OtherTarget t)
  then show ?thesis by (simp add: target_Close_def split: prod.splits)
qed

lemma CopyToFile_deleteCalls:
  "deleteCalls (snd (snd (snd (CopyToFile ops env f tgt tr)))) = deleteCalls tr"
proof (cases tgt)
  case (S3Target tf)
  then show ?thesis by (simp add: CopyToFile_def copyWithinS3ToFile_def Let_def)
next
  case (OtherTarget t)
  obtain e1 tg1 f1 tr1 where c1: "ioCopy ops env tgt f tr = (e1, tg1, f1, tr1)"
    by (cases "ioCopy ops env tgt f tr")
  have d1: "deleteCalls tr1 = deleteCalls tr" using ioCopy_deleteCalls [of ops env tgt f tr] c1 by simp
  obtain r2 tg2 tr2 where c2: "target_Close ops env tg1 tr1 = (r2, tg2, tr2)"
    by (cases "target_Close ops env tg1 tr1")
  have d2: "deleteCalls tr2 = deleteCalls tr1"
    using target_Close_deleteCalls [of ops env tg1 tr1] c2 by simp
  have d3: "deleteCalls (snd (snd (Close env f1 tr2))) = deleteCalls tr2" by (rule Close_deleteCalls)
  show ?thesis
    using OtherTarget c1 c2 d1 d2 d3
    by (auto simp: CopyToFile_def TouchCopy_def split: prod.splits option.splits outcome.splits)
qed

lemma CopyToLocation_deleteCalls:
  "deleteCalls (snd (snd (CopyToLocation ops env f loc tr))) = deleteCalls tr"
proof (cases "locScheme loc = Scheme")
  case True
  then show ?thesis
    by (simp add: CopyToLocation_def copyWithinS3ToLocation_def Let_def split: option.splits)
next
  case False
  show ?thesis
  proof (cases "locNewFile loc (locVolume loc) (pathJoin env (locPath loc) (Name f))")
    case (Inl err)
    then show ?thesis using False by (simp add: CopyToLocation_def)
  next
    case (Inr nf)
    obtain e1 tg1 f1 tr1 where c1: "ioCopy ops env nf f tr = (e1, tg1, f1, tr1)"
      by (cases "ioCopy ops env nf f tr")
    have d1: "deleteCalls tr1 = deleteCalls tr" using ioCopy_deleteCalls [of ops env nf f tr] c1 by simp
    obtain r2 tg2 tr2 where c2: "target_Close ops env tg1 tr1 = (r2, tg2, tr2)"
      by (cases "target_Close ops env tg1 tr1")
    have d2: "deleteCalls tr2 = deleteCalls tr1"
      using target_Close_deleteCalls [of ops env tg1 tr1] c2 by simp
    have d3: "deleteCalls (snd (snd (Close env f1 tr2))) = deleteCalls tr2" by (rule Close_deleteCalls)
    show ?thesis
      using False Inr c1 c2 d1 d2 d3
      by (auto simp: CopyToLocation_def split: prod.splits option.splits outcome.splits)
  qed
qed

lemma MoveToFile_copy_fails:
  assumes "fst (CopyToFile ops env f tgt tr) \<noteq> Return None"
  shows "MoveToFile ops env f tgt tr = CopyToFile ops env f tgt tr"
    and "deleteCalls (snd (snd (snd (MoveToFile ops env f tgt tr)))) = deleteCalls tr"
proof -
  show m: "MoveToFile ops env f tgt tr = CopyToFile ops env f tgt tr"
    using assms
    by (cases "CopyToFile ops env f tgt tr")
       (auto simp: MoveToFile_def split: outcome.splits option.splits)
  show "deleteCalls (snd (snd (snd (MoveToFile ops env f tgt tr)))) = deleteCalls tr"
    unfolding m by (rule CopyToFile_deleteCalls)
qed

lemma MoveToFile_copy_ok:
  assumes "CopyToFile ops env f tgt tr = (Return None, f1, tgt1, tr1)"
  shows "MoveToFile ops env f tgt tr =
           (fst (Delete env f1 tr1), fst (snd (Delete env f1 tr1)), tgt1, snd (snd (Delete env f1 tr1)))"
  using assms by (simp add: MoveToFile_def split: prod.splits)

lemma MoveToLocation_copy_fails:
  assumes "\<forall>nf. fst (CopyToLocation ops env f loc tr) \<noteq> Return (Inr nf)"
  shows "snd (MoveToLocation ops env f loc tr) = snd (CopyToLocation ops env f loc tr)"
    and "deleteCalls (snd (snd (MoveToLocation ops env f loc tr))) = deleteCalls tr"
    and "\<forall>err. fst (CopyToLocation ops env f loc tr) = Return (Inl err)
           \<longrightarrow> fst (MoveToLocation ops env f loc tr) = Return (None, Some err)"
proof -
  show m: "snd (MoveToLocation ops env f loc tr) = snd (CopyToLocation ops env f loc tr)"
    using assms
    by (cases "CopyToLocation ops env f loc tr")
       (auto simp: MoveToLocation_def split: outcome.splits sum.splits)
  show "deleteCalls (snd (snd (MoveToLocation ops env f loc tr))) = deleteCalls tr"
    unfolding m by (rule CopyToLocation_deleteCalls)
  show "\<forall>err. fst (CopyToLocation ops env f loc tr) = Return (Inl err)
           \<longrightarrow> fst (MoveToLocation ops env f loc tr) = Return (None, Some err)"
    by (cases "CopyToLocation ops env f loc tr")
       (auto simp: MoveToLocation_def split: outcome.splits sum.splits)
qed

lemma MoveToLocation_copy_ok:
  assumes "CopyToLocation ops env f loc tr = (Return (Inr nf), f1, tr1)"
    and "fst (Delete env f1 tr1) = Return delErr"
  shows "MoveToLocation ops env f loc tr =
           (Return (Some nf, delErr), fst (snd (Delete env f1 tr1)), snd (snd (Delete env f1 tr1)))"
  using assms
  by (cases "Delete env f1 tr1") (simp add: MoveToLocation_def)

lemma Delete_request_fails:
  assumes "Close env (f\<lparr>writeBuffer := None\<rparr>) tr = (Return None, f1, tr1)"
  shows "Delete env f tr =
           (Return (DeleteObject env (tr1 @ [EvDeleteObject (bucket f) (key f)])), f1,
            tr1 @ [EvDeleteObject (bucket f) (key f)])"
proof -
  have "identity f1 = identity f"
    using Close_identity [of env "f\<lparr>writeBuffer := None\<rparr>" tr] assms by simp
  then have "bucket f1 = bucket f" "key f1 = key f" by (simp_all add: identity_def)
  then show ?thesis using assms by (simp add: Delete_def Let_def)
qed

text \<open>
  C6: a Move deletes the source only after a successful copy.  When the copy does not
  return success, MoveToFile returns what the copy returned, MoveToLocation returns no
  handle and the copy's error, and in both no delete request has been added to the calls
  made.  When the copy succeeds, the Move goes on with Delete of the source: MoveToFile
  returns Delete's result, and MoveToLocation returns the new handle together with
  Delete's error, which, when the Close inside Delete succeeds, is the answer of the
  delete request.
\<close>

theorem Move_deletes_only_after_copy:
  "(fst (CopyToFile ops env f tgt tr) \<noteq> Return None \<longrightarrow>
      MoveToFile ops env f tgt tr = CopyToFile ops env f tgt tr
      \<and> deleteCalls (snd (snd (snd (MoveToFile ops env f tgt tr)))) = deleteCalls tr)
   \<and> (CopyToFile ops env f tgt tr = (Return None, f1, tgt1, tr1) \<longrightarrow>
      MoveToFile ops env f tgt tr =
        (fst (Delete env f1 tr1), fst (snd (Delete env f1 tr1)), tgt1, snd (snd (Delete env f1 tr1))))
   \<and> ((\<forall>nf. fst (CopyToLocation ops env f loc tr) \<noteq> Return (Inr nf)) \<longrightarrow>
      snd (MoveToLocation ops env f loc tr) = snd (CopyToLocation ops env f loc tr)
      \<and> deleteCalls (snd (snd (MoveToLocation ops env f loc tr))) = deleteCalls tr
      \<and> (\<forall>err. fst (CopyToLocation ops env f loc tr) = Return (Inl err)
            \<longrightarrow> fst (MoveToLocation ops env f loc tr) = Return (None, Some err)))
   \<and> (CopyToLocation ops env f loc tr = (Return (Inr newF), f2, tr2)
        \<and> fst (Delete env f2 tr2) = Return delErr \<longrightarrow>
      MoveToLocation ops env f loc tr =
        (Return (Some newF, delErr), fst (snd (Delete env f2 tr2)), snd (snd (Delete env f2 tr2))))
   \<and> (Close env (g\<lparr>writeBuffer := None\<rparr>) tr = (Return None, g1, tr3) \<longrightarrow>
      Delete env g tr =
        (Return (DeleteObject env (tr3 @ [EvDeleteObject (bucket g) (key g)])), g1,
         tr3 @ [EvDeleteObject (bucket g) (key g)]))"
  using MoveToFile_copy_fails [of ops env f tgt tr] MoveToFile_copy_ok [of ops env f tgt tr f1 tgt1 tr1]
    MoveToLocation_copy_fails [of ops env f loc tr]
    MoveToLocation_copy_ok [of ops env f loc tr newF f2 tr2 delErr]
    Delete_request_fails [of env g tr g1 tr3]
  by blast

lemma Close_sampleFile:
  assumes "HeadObject env = HeadObject quietEnv"
  shows "Close env sampleFile tr = (Return None, sampleFile, tr @ [EvHeadObject ''docs'' ''a/b/report.txt''])"
proof -
  have "HeadObject env (tr @ [EvHeadObject (bucket sampleFile) (key sampleFile)])
          = Inr \<lparr>LastModified = 0, ContentLength = 3\<rparr>"
    using assms by (simp add: quietEnv_def)
  from waitUntil_found [OF this] show ?thesis
    by (simp add: Close_cleared sampleFile_def)
qed

lemma Delete_sampleFile:
  assumes "HeadObject env = HeadObject quietEnv"
  shows "Delete env sampleFile tr =
     (Return (DeleteObject env (tr @ [EvHeadObject ''docs'' ''a/b/report.txt'',
                                       EvDeleteObject ''docs'' ''a/b/report.txt''])),
      sampleFile,
      tr @ [EvHeadObject ''docs'' ''a/b/report.txt'', EvDeleteObject ''docs'' ''a/b/report.txt''])"
proof -
  have s: "sampleFile\<lparr>writeBuffer := None\<rparr> = sampleFile" by (simp add: sampleFile_def)
  show ?thesis
    using Close_sampleFile [OF assms, of tr]
    by (simp add: Delete_def s Let_def) (simp add: sampleFile_def)
qed

theorem Move_deletes_only_after_copy_witness:
  "MoveToFile memOps copyFails sampleFile (S3Target backupFile) [] =
     (Return (Some (AwsError ''AccessDenied'' ''Access Denied'')), sampleFile, S3Target backupFile,
      [EvCopyObject ''backup'' ''report.txt'' ''docs/a/b/report.txt''])
   \<and> MoveToFile memOps quietEnv sampleFile (S3Target backupFile) [] =
     (Return None, sampleFile, S3Target backupFile,
      [EvCopyObject ''backup'' ''report.txt'' ''docs/a/b/report.txt'',
       EvHeadObject ''docs'' ''a/b/report.txt'', EvDeleteObject ''docs'' ''a/b/report.txt''])
   \<and> MoveToLocation memOps copyFails sampleFile backupLocation [] =
     (Return (None, Some (AwsError ''AccessDenied'' ''Access Denied'')), sampleFile,
      [EvCopyObject ''backup'' ''2024/report.txt'' ''docs/a/b/report.txt''])
   \<and> MoveToLocation memOps deleteFails sampleFile backupLocation [] =
     (Return (Some (S3Target (backupFile\<lparr>key := ''2024/report.txt''\<rparr>)),
              Some (AwsError ''AccessDenied'' ''Access Denied'')),
      sampleFile,
      [EvCopyObject ''backup'' ''2024/report.txt'' ''docs/a/b/report.txt'',
       EvHeadObject ''docs'' ''a/b/report.txt'', EvDeleteObject ''docs'' ''a/b/report.txt''])"
proof -
  let ?e = "AwsError ''AccessDenied'' ''Access Denied''"
  let ?cf = "EvCopyObject ''backup'' ''report.txt'' ''docs/a/b/report.txt''"
  let ?cl = "EvCopyObject ''backup'' ''2024/report.txt'' ''docs/a/b/report.txt''"
  let ?hd = "EvHeadObject ''docs'' ''a/b/report.txt''"
  let ?dl = "EvDeleteObject ''docs'' ''a/b/report.txt''"
  let ?nf = "S3Target (backupFile\<lparr>key := ''2024/report.txt''\<rparr>) :: bytes target"
  have hq: "HeadObject quietEnv = HeadObject quietEnv" "HeadObject deleteFails = HeadObject quietEnv"
    by (simp_all add: deleteFails_def)
  have c1: "CopyToFile memOps copyFails sampleFile (S3Target backupFile) [] =
      (Return (Some ?e), sampleFile, S3Target backupFile, [?cf])"
    by (simp add: CopyToFile_def copyWithinS3ToFile_def copyFails_def quietEnv_def sampleFile_def
          backupFile_def Let_def)
  have c2: "CopyToFile memOps quietEnv sampleFile (S3Target backupFile) [] =
      (Return None, sampleFile, S3Target backupFile, [?cf])"
    by (simp add: CopyToFile_def copyWithinS3ToFile_def quietEnv_def sampleFile_def
          backupFile_def Let_def)
  have c3: "CopyToLocation memOps copyFails sampleFile backupLocation [] =
      (Return (Inl ?e), sampleFile, [?cl])"
    by (simp add: CopyToLocation_def copyWithinS3ToLocation_def copyFails_def quietEnv_def
          backupLocation_def Scheme_def Name_sampleFile Let_def)
       (simp add: sampleFile_def)
  have c4: "CopyToLocation memOps deleteFails sampleFile backupLocation [] =
      (Return (Inr ?nf), sampleFile, [?cl])"
    by (simp add: CopyToLocation_def copyWithinS3ToLocation_def deleteFails_def quietEnv_def
          backupLocation_def Scheme_def Name_sampleFile Let_def newFile_def CleanPrefix_def
          backupFile_def)
       (simp add: sampleFile_def)
  have d2: "Delete quietEnv sampleFile [?cf] = (Return None, sampleFile, [?cf, ?hd, ?dl])"
    using Delete_sampleFile [OF hq(1), of "[?cf]"] by (simp add: quietEnv_def)
  have d4: "Delete deleteFails sampleFile [?cl] = (Return (Some ?e), sampleFile, [?cl, ?hd, ?dl])"
    using Delete_sampleFile [OF hq(2), of "[?cl]"] by (simp add: deleteFails_def)
  have n1: "fst (CopyToFile memOps copyFails sampleFile (S3Target backupFile) []) \<noteq> Return None"
    using c1 by simp
  have n3: "\<forall>nf. fst (CopyToLocation memOps copyFails sampleFile backupLocation []) \<noteq> Return (Inr nf)"
    using c3 by simp
  have r1: "MoveToFile memOps copyFails sampleFile (S3Target backupFile) [] =
      CopyToFile memOps copyFails sampleFile (S3Target backupFile) []"
    using Move_deletes_only_after_copy [of memOps copyFails sampleFile "S3Target backupFile" "[]"] n1
    by blast
  have r2: "MoveToFile memOps quietEnv sampleFile (S3Target backupFile) [] =
      (fst (Delete quietEnv sampleFile [?cf]), fst (snd (Delete quietEnv sampleFile [?cf])),
       S3Target backupFile, snd (snd (Delete quietEnv sampleFile [?cf])))"
    using Move_deletes_only_after_copy [of memOps quietEnv sampleFile "S3Target backupFile" "[]"
        sampleFile "S3Target backupFile" "[?cf]"] c2
    by blast
  have r3: "snd (MoveToLocation memOps copyFails sampleFile backupLocation [])
        = snd (CopyToLocation memOps copyFails sampleFile backupLocation [])
      \<and> fst (MoveToLocation memOps copyFails sampleFile backupLocation []) = Return (None, Some ?e)"
    using Move_deletes_only_after_copy [of memOps copyFails sampleFile "S3Target backupFile" "[]"
        sampleFile "S3Target backupFile" "[?cf]" backupLocation] n3 c3
    by (metis fst_conv)
  have r4: "MoveToLocation memOps deleteFails sampleFile backupLocation [] =
      (Return (Some ?nf, Some ?e), fst (snd (Delete deleteFails sampleFile [?cl])),
       snd (snd (Delete deleteFails sampleFile [?cl])))"
    using Move_deletes_only_after_copy [of memOps deleteFails sampleFile "S3Target backupFile" "[]"
        sampleFile "S3Target backupFile" "[?cf]" backupLocation ?nf sampleFile "[?cl]" "Some ?e"] c4 d4
    by (metis fst_conv)
  have m3: "MoveToLocation memOps copyFails sampleFile backupLocation [] =
      (Return (None, Some ?e), sampleFile, [?cl])"
    using r3 c3 by (metis prod.collapse snd_conv)
  show ?thesis
    using r1 c1 r2 d2 m3 r4 d4 by simp
qed

text \<open>
  A move to a file of another backend, with every call succeeding: the content is
  streamed through the mirror, both ends are closed, and the source is deleted.
\<close>

lemma Move_across_backends:
  "MoveToFile memOps quietEnv sampleFile (OtherTarget []) [] =
     (Return None, sampleFile, OtherTarget [1, 2, 3],
      [EvTempFile ''report.txt'', EvGetObject ''docs'' ''a/b/report.txt'',
       EvCopyToTemp ''/tmp/report.txt.1'', EvSeekTemp ''/tmp/report.txt.1'',
       EvRemove ''/tmp/report.txt.1'', EvHeadObject ''docs'' ''a/b/report.txt'',
       EvCloseTemp ''/tmp/report.txt.1'',
       EvHeadObject ''docs'' ''a/b/report.txt'', EvDeleteObject ''docs'' ''a/b/report.txt''])"
proof -
  let ?tr1 = "[EvTempFile ''report.txt'', EvGetObject ''docs'' ''a/b/report.txt'',
       EvCopyToTemp ''/tmp/report.txt.1'', EvSeekTemp ''/tmp/report.txt.1'']"
  let ?tr2 = "?tr1 @ [EvRemove ''/tmp/report.txt.1'', EvHeadObject ''docs'' ''a/b/report.txt'',
       EvCloseTemp ''/tmp/report.txt.1'']"
  have m: "materialised quietEnv sampleFile [] ''/tmp/report.txt.1'' [1, 2, 3]"
    by (simp add: materialised_def quietEnv_def)
  have t: "tempFile sampleFile = None" by (simp add: sampleFile_def)
  have ck: "checkTempFile quietEnv sampleFile [] = (None, sampleFile\<lparr>tempFile := Some mirror\<rparr>, ?tr1)"
    using checkTempFile_materialises [OF t m]
    by (simp add: Name_sampleFile mirror_def) (simp add: sampleFile_def)
  have ch: "chunks 32768 [1, 2, 3 :: 8 word] = [[1, 2, 3]]"
    by (simp add: chunks.simps)
  have io: "ioCopy memOps quietEnv (OtherTarget []) sampleFile [] =
      (None, OtherTarget [1, 2, 3], sampleFile\<lparr>tempFile := Some (mirror\<lparr>tpos := 3\<rparr>)\<rparr>, ?tr1)"
    using ck ch by (simp add: ioCopy_def mirror_def target_Write_def memOps_def)
  have cl: "Close quietEnv (sampleFile\<lparr>tempFile := Some (mirror\<lparr>tpos := 3\<rparr>)\<rparr>) ?tr1 =
      (Return None, sampleFile, ?tr2)"
  proof -
    have w: "waitUntilFileExists quietEnv (S3File sampleFile) 5 (?tr1 @ [EvRemove ''/tmp/report.txt.1''])
      = (Return None, (?tr1 @ [EvRemove ''/tmp/report.txt.1'']) @ [EvHeadObject (bucket sampleFile) (key sampleFile)])"
      by (rule waitUntil_found [OF quiet_head])
    have r: "Remove quietEnv x = None" "CloseTemp quietEnv x = None" for x
      by (simp_all add: quietEnv_def)
    show ?thesis
      using w
      by (simp add: Close_def Close_tempFile_def Close_writeBuffer_def Close_deferred_def Let_def
            OrNil_def DeferFunc_def r mirror_def sampleFile_def)
  qed
  have cp: "CopyToFile memOps quietEnv sampleFile (OtherTarget []) [] =
      (Return None, sampleFile, OtherTarget [1, 2, 3], ?tr2)"
    using io cl by (simp add: CopyToFile_def TouchCopy_def target_Close_def memOps_def)
  have d: "Delete quietEnv sampleFile ?tr2 =
      (Return None, sampleFile,
       ?tr2 @ [EvHeadObject ''docs'' ''a/b/report.txt'', EvDeleteObject ''docs'' ''a/b/report.txt''])"
    using Delete_sampleFile [of quietEnv ?tr2] by (simp add: quietEnv_def)
  show ?thesis using cp d by (simp add: MoveToFile_def)
qed

end
